theory Spec2Isabelle
  imports Complex_Main "HOL-Library.Sublist" "HOL-Library.AList"
begin

section \<open>ICU transfer dashboard: the client-side service layer\<close>

text \<open>
  The repository holds two copies of the module \<^verbatim>\<open>ml-service\<close>: the current one (the
  class \<^verbatim>\<open>MLPredictionService\<close> with the \<^verbatim>\<open>isReconnecting\<close> flag, the two refresh
  callbacks and the guarded comorbidity reads) and an earlier one under
  \<^verbatim>\<open>lib/ml-service.ts\<close>. Definitions without a suffix embed the current copy; definitions
  ending in \<open>_legacy\<close> embed the earlier copy where the two differ.

  JavaScript numbers are modelled as \<^typ>\<open>real\<close>: the rule engine only compares readings with
  constants and adds or subtracts a handful of decimal constants. \<^verbatim>\<open>NaN\<close> has no
  counterpart here (JSON cannot carry it). An optional field is an \<^typ>\<open>'a option\<close>;
  JavaScript truthiness of an optional number (\<^verbatim>\<open>x && ...\<close>, \<^verbatim>\<open>x || d\<close>) treats both an
  absent value and \<open>0\<close> as false, and that is written out below.
\<close>

subsection \<open>Data model\<close>

record PatientVitals =
  heartRate :: real
  spO2 :: real
  temperature :: "real option"
  systolicBP :: real
  diastolicBP :: "real option"
  respiratoryRate :: real
  gcs :: real
  lactate :: real
  meanBP :: "real option"
  centralVenousPressure :: "real option"

text \<open>The field \<^verbatim>\<open>LabValues.lactate\<close> is named \<open>labLactate\<close>: a record field is a
  constant, and \<open>lactate\<close> is taken by the vitals.\<close>

record LabValues =
  labLactate :: real
  creatinine :: "real option"
  bilirubin :: "real option"
  hemoglobin :: "real option"
  platelets :: "real option"
  whiteBloodCells :: "real option"

record RichPrediction =
  transferReady :: bool
  confidence :: real
  reasoning :: string
  riskFactors :: "string list"
  timestamp :: "string option"

text \<open>\<^verbatim>\<open>Patient.id\<close> and \<^verbatim>\<open>Patient.name\<close> are named \<open>patientId\<close> and \<open>patientName\<close>
  (\<open>id\<close> is the identity function of HOL).\<close>

record Patient =
  patientId :: string
  patientName :: string
  age :: real
  vitals :: PatientVitals
  labValues :: "LabValues option"
  comorbidities :: "string list option"
  onVentilator :: bool
  onPressors :: bool
  lengthOfStay :: "real option"
  admissionType :: "string option"
  comorbidityScore :: "real option"
  prediction :: "RichPrediction option"
  lastUpdated :: "string option"

subsection \<open>JavaScript idioms\<close>

datatype exn = TypeError string | Error string

text \<open>\<^verbatim>\<open>x || d\<close> on an optional number.\<close>

definition num_or :: "real option \<Rightarrow> real \<Rightarrow> real" where
  "num_or x d = (case x of None \<Rightarrow> d | Some v \<Rightarrow> if v = 0 then d else v)"

text \<open>\<^verbatim>\<open>x && x >= c\<close> and \<^verbatim>\<open>x && x > c\<close> on an optional number.\<close>

definition num_and_ge :: "real option \<Rightarrow> real \<Rightarrow> bool" where
  "num_and_ge x c = (case x of None \<Rightarrow> False | Some v \<Rightarrow> v \<noteq> 0 \<and> v \<ge> c)"

definition num_and_gt :: "real option \<Rightarrow> real \<Rightarrow> bool" where
  "num_and_gt x c = (case x of None \<Rightarrow> False | Some v \<Rightarrow> v \<noteq> 0 \<and> v > c)"

text \<open>\<^verbatim>\<open>patient.labValues?.bilirubin\<close> and \<^verbatim>\<open>patient.labValues?.creatinine\<close>.\<close>

definition lab_bilirubin :: "Patient \<Rightarrow> real option" where
  "lab_bilirubin patient = (case labValues patient of None \<Rightarrow> None | Some l \<Rightarrow> bilirubin l)"

definition lab_creatinine :: "Patient \<Rightarrow> real option" where
  "lab_creatinine patient = (case labValues patient of None \<Rightarrow> None | Some l \<Rightarrow> creatinine l)"

text \<open>A \<^verbatim>\<open>try { ... } catch (error) { ... }\<close> block: the body either throws or returns, and
  the handler may itself throw.\<close>

definition try_catch :: "exn + 'a \<Rightarrow> (exn \<Rightarrow> exn + 'a) \<Rightarrow> exn + 'a" where
  "try_catch body handler = (case body of Inl e \<Rightarrow> handler e | Inr v \<Rightarrow> Inr v)"

subsection \<open>The local fallback rule engine\<close>

definition calculateSOFAScore :: "Patient \<Rightarrow> int" where
  "calculateSOFAScore patient =
    (let sofa = 0;
         sofa = (if spO2 (vitals patient) < 90 then sofa + 3
                 else if spO2 (vitals patient) < 95 then sofa + 2
                 else if spO2 (vitals patient) < 98 then sofa + 1
                 else sofa);
         map = (systolicBP (vitals patient) + 2 * num_or (diastolicBP (vitals patient)) 60) / 3;
         sofa = (if onPressors patient then sofa + 4
                 else if map < 70 then sofa + 1
                 else sofa);
         sofa = (if num_and_ge (lab_bilirubin patient) 12 then sofa + 4
                 else if num_and_ge (lab_bilirubin patient) 6 then sofa + 3
                 else if num_and_ge (lab_bilirubin patient) 2 then sofa + 2
                 else if num_and_ge (lab_bilirubin patient) 1.2 then sofa + 1
                 else sofa);
         sofa = (if num_and_ge (lab_creatinine patient) 5 then sofa + 4
                 else if num_and_ge (lab_creatinine patient) 3.5 then sofa + 3
                 else if num_and_ge (lab_creatinine patient) 2 then sofa + 2
                 else if num_and_ge (lab_creatinine patient) 1.2 then sofa + 1
                 else sofa);
         sofa = (if gcs (vitals patient) < 6 then sofa + 4
                 else if gcs (vitals patient) < 10 then sofa + 3
                 else if gcs (vitals patient) < 13 then sofa + 2
                 else if gcs (vitals patient) < 15 then sofa + 1
                 else sofa)
     in sofa)"

text \<open>The five assessments of \<^verbatim>\<open>assessVitalStability\<close>, each with the amount it subtracts,
  in the order and with the \<^verbatim>\<open>if\<close>/\<^verbatim>\<open>else if\<close> chains of the source.\<close>

definition heartRatePenalty :: "real \<Rightarrow> real" where
  "heartRatePenalty hr =
    (if hr < 60 \<or> hr > 120 then 0.2
     else if hr < 50 \<or> hr > 140 then 0.4
     else 0)"

definition spO2Penalty :: "real \<Rightarrow> real" where
  "spO2Penalty s =
    (if s < 95 then 0.3
     else if s < 92 then 0.5
     else 0)"

definition bloodPressurePenalty :: "real \<Rightarrow> real option \<Rightarrow> real" where
  "bloodPressurePenalty sys dia =
    (let map = (sys + 2 * num_or dia 60) / 3
     in if map < 65 \<or> sys > 180 then 0.3 else 0)"

definition temperaturePenalty :: "real option \<Rightarrow> real" where
  "temperaturePenalty t =
    (case t of
       None \<Rightarrow> 0
     | Some v \<Rightarrow> if v \<noteq> 0 \<and> (v > 101.5 \<or> v < 96) then 0.2 else 0)"

definition respiratoryRatePenalty :: "real \<Rightarrow> real" where
  "respiratoryRatePenalty rr = (if rr > 24 \<or> rr < 12 then 0.2 else 0)"

definition assessVitalStability :: "PatientVitals \<Rightarrow> real" where
  "assessVitalStability v =
    (let stability = 1.0;
         stability = stability - heartRatePenalty (heartRate v);
         stability = stability - spO2Penalty (spO2 v);
         stability = stability - bloodPressurePenalty (systolicBP v) (diastolicBP v);
         stability = stability - temperaturePenalty (temperature v);
         stability = stability - respiratoryRatePenalty (respiratoryRate v)
     in max 0 stability)"

text \<open>\<^verbatim>\<open>factors.push\<close> appends; \<open>push_if\<close> is one guarded push.\<close>

definition push_if :: "bool \<Rightarrow> string \<Rightarrow> string list \<Rightarrow> string list" where
  "push_if c x factors = (if c then factors @ [x] else factors)"

definition comorbidities_gt2 :: "Patient \<Rightarrow> bool" where
  "comorbidities_gt2 patient =
    (case comorbidities patient of None \<Rightarrow> False | Some cs \<Rightarrow> length cs > 2)"

definition identifyRiskFactors :: "Patient \<Rightarrow> string list" where
  "identifyRiskFactors patient =
    (let factors = [];
         factors = push_if (onVentilator patient) ''Mechanical ventilation'' factors;
         factors = push_if (onPressors patient) ''Vasopressor support'' factors;
         factors = push_if (gcs (vitals patient) < 15) ''Altered mental status'' factors;
         factors = push_if (lactate (vitals patient) > 2.0) ''Elevated lactate'' factors;
         factors = push_if (num_and_gt (lab_creatinine patient) 1.5) ''Renal dysfunction'' factors;
         factors = push_if (spO2 (vitals patient) < 95) ''Hypoxemia'' factors;
         factors = push_if (age patient > 70) ''Advanced age'' factors;
         factors = push_if (comorbidities_gt2 patient) ''Multiple comorbidities'' factors
     in if length factors > 0 then factors else [''Low risk profile''])"

text \<open>The decision list of \<^verbatim>\<open>fallbackPrediction\<close>: first match wins.\<close>

definition decide :: "Patient \<Rightarrow> int \<Rightarrow> real \<Rightarrow> bool \<times> real \<times> string" where
  "decide patient sofaScore vitalStability =
    (if onVentilator patient \<or> onPressors patient then
       (False, 0.95, ''Patient requires intensive care support (ventilator/pressors)'')
     else if sofaScore \<ge> 6 then
       (False, 0.9, ''High SOFA score indicates multi-organ dysfunction'')
     else if lactate (vitals patient) > 4.0 then
       (False, 0.88, ''Elevated lactate suggests ongoing tissue hypoperfusion'')
     else if gcs (vitals patient) < 13 then
       (False, 0.85, ''Altered mental status requires continued ICU monitoring'')
     else if vitalStability < 0.7 then
       (False, 0.8, ''Unstable vital signs require continued intensive monitoring'')
     else
       (True, min 0.95 (0.7 + vitalStability * 0.25),
        ''Stable vitals, improving clinical parameters, suitable for step-down care''))"

text \<open>The result of the \<^verbatim>\<open>catch\<close> block. The argument \<open>now\<close> stands for
  \<^verbatim>\<open>new Date().toISOString()\<close>.\<close>

definition assessment_unavailable :: "string \<Rightarrow> RichPrediction" where
  "assessment_unavailable now =
    \<lparr>transferReady = False, confidence = 0.5,
     reasoning = ''Unable to assess - requires clinical evaluation'',
     riskFactors = [''Assessment unavailable''], timestamp = Some now\<rparr>"

text \<open>The body of the \<^verbatim>\<open>try\<close> block. Every property read in it is on a required field or
  goes through \<^verbatim>\<open>?.\<close> or a truthiness guard, so no step of it throws.\<close>

definition fallbackPrediction_try :: "string \<Rightarrow> Patient \<Rightarrow> exn + RichPrediction" where
  "fallbackPrediction_try now patient =
    (let sofaScore = calculateSOFAScore patient;
         vitalStability = assessVitalStability (vitals patient);
         riskFactors = identifyRiskFactors patient;
         (transferReady, confidence, reasoning) = decide patient sofaScore vitalStability
     in Inr \<lparr>transferReady = transferReady, confidence = confidence, reasoning = reasoning,
             riskFactors = riskFactors, timestamp = Some now\<rparr>)"

definition fallbackPrediction :: "string \<Rightarrow> Patient \<Rightarrow> exn + RichPrediction" where
  "fallbackPrediction now patient =
    try_catch (fallbackPrediction_try now patient) (\<lambda>error. Inr (assessment_unavailable now))"

subsection \<open>The earlier copy of the rule engine\<close>

text \<open>In the earlier copy \<^verbatim>\<open>calculateComorbidityScore\<close> takes \<^verbatim>\<open>patient.comorbidities\<close>
  unguarded and calls \<^verbatim>\<open>reduce\<close> on it, and \<^verbatim>\<open>identifyRiskFactors\<close> reads
  \<^verbatim>\<open>patient.comorbidities.length\<close>; on an absent list both raise a \<^verbatim>\<open>TypeError\<close>.
  \<^verbatim>\<open>assessVitalStability\<close> and \<^verbatim>\<open>calculateSOFAScore\<close> are the same text in both copies.\<close>

definition weights :: "string \<Rightarrow> real option" where
  "weights condition =
    map_of [(''Diabetes'', 1), (''Hypertension'', 1), (''CAD'', 2), (''CKD'', 2),
            (''COPD'', 2), (''Cancer'', 3), (''Cirrhosis'', 3)] condition"

definition calculateComorbidityScore :: "string list option \<Rightarrow> real" where
  "calculateComorbidityScore cs =
    (case cs of
       None \<Rightarrow> 0
     | Some xs \<Rightarrow> foldl (\<lambda>score condition. score + num_or (weights condition) 0) 0 xs)"

definition calculateComorbidityScore_legacy :: "string list option \<Rightarrow> exn + real" where
  "calculateComorbidityScore_legacy cs =
    (case cs of
       None \<Rightarrow> Inl (TypeError ''Cannot read properties of undefined (reading reduce)'')
     | Some xs \<Rightarrow> Inr (foldl (\<lambda>score condition. score + num_or (weights condition) 0) 0 xs))"

definition identifyRiskFactors_legacy :: "Patient \<Rightarrow> exn + string list" where
  "identifyRiskFactors_legacy patient =
    (let factors = [];
         factors = push_if (onVentilator patient) ''Mechanical ventilation'' factors;
         factors = push_if (onPressors patient) ''Vasopressor support'' factors;
         factors = push_if (gcs (vitals patient) < 15) ''Altered mental status'' factors;
         factors = push_if (lactate (vitals patient) > 2.0) ''Elevated lactate'' factors;
         factors = push_if (num_and_gt (lab_creatinine patient) 1.5) ''Renal dysfunction'' factors;
         factors = push_if (spO2 (vitals patient) < 95) ''Hypoxemia'' factors;
         factors = push_if (age patient > 70) ''Advanced age'' factors
     in case comorbidities patient of
          None \<Rightarrow> Inl (TypeError ''Cannot read properties of undefined (reading length)'')
        | Some cs \<Rightarrow>
            (let factors = push_if (length cs > 2) ''Multiple comorbidities'' factors
             in Inr (if length factors > 0 then factors else [''Low risk profile''])))"

definition fallbackPrediction_try_legacy :: "string \<Rightarrow> Patient \<Rightarrow> exn + RichPrediction" where
  "fallbackPrediction_try_legacy now patient =
    (let sofaScore = calculateSOFAScore patient
     in case calculateComorbidityScore_legacy (comorbidities patient) of
          Inl e \<Rightarrow> Inl e
        | Inr score \<Rightarrow>
            (let vitalStability = assessVitalStability (vitals patient)
             in case identifyRiskFactors_legacy patient of
                  Inl e \<Rightarrow> Inl e
                | Inr factors \<Rightarrow>
                    (let (transferReady, confidence, reasoning) =
                           decide patient sofaScore vitalStability
                     in Inr \<lparr>transferReady = transferReady, confidence = confidence,
                             reasoning = reasoning, riskFactors = factors,
                             timestamp = Some now\<rparr>)))"

definition fallbackPrediction_legacy :: "string \<Rightarrow> Patient \<Rightarrow> exn + RichPrediction" where
  "fallbackPrediction_legacy now patient =
    try_catch (fallbackPrediction_try_legacy now patient)
      (\<lambda>error. Inr (assessment_unavailable now))"

subsection \<open>Event Bus\<close>

text \<open>
  A subscriber is a JavaScript function: it has an identity (\<^verbatim>\<open>indexOf\<close> compares
  references) and a behaviour. Called with the payload in a state \<open>'w\<close> of the screens, it
  leaves a new state, may have issued HTTP requests, and either returns or throws. The
  subscribers of this repository set React state and refetch; none of them subscribes or
  unsubscribes while it runs, so the subscriber lists are not part of \<open>'w\<close>.
\<close>

datatype json = JNull | JBool bool | JNum real | JStr string
  | JArr "json list" | JObj "(string \<times> json) list"

record http_request =
  http_method :: string
  url :: string
  body :: "json option"

record 'w reaction =
  world :: 'w
  requests :: "http_request list"
  thrown :: "exn option"

record ('d, 'w) callback =
  cb_id :: nat
  cb_run :: "'d \<Rightarrow> 'w \<Rightarrow> 'w reaction"

type_synonym ('d, 'w) listeners = "string \<Rightarrow> ('d, 'w) callback list option"

definition addListener ::
  "string \<Rightarrow> ('d, 'w) callback \<Rightarrow> ('d, 'w) listeners \<Rightarrow> ('d, 'w) listeners" where
  "addListener event cb ls =
    (let ls = (if ls event = None then ls(event \<mapsto> []) else ls)
     in case ls event of
          None \<Rightarrow> ls
        | Some callbacks \<Rightarrow> ls(event \<mapsto> callbacks @ [cb]))"

text \<open>\<^verbatim>\<open>callbacks.indexOf(callback)\<close> followed by \<^verbatim>\<open>splice(index, 1)\<close>: the first entry
  that is the same function is removed.\<close>

fun splice_first :: "nat \<Rightarrow> ('d, 'w) callback list \<Rightarrow> ('d, 'w) callback list" where
  "splice_first i [] = []"
| "splice_first i (cb # cbs) = (if cb_id cb = i then cbs else cb # splice_first i cbs)"

definition removeListener ::
  "string \<Rightarrow> ('d, 'w) callback \<Rightarrow> ('d, 'w) listeners \<Rightarrow> ('d, 'w) listeners" where
  "removeListener event cb ls =
    (case ls event of
       None \<Rightarrow> ls
     | Some callbacks \<Rightarrow> ls(event \<mapsto> splice_first (cb_id cb) callbacks))"

text \<open>The outcome of a dispatch: the state and the requests the subscribers left, the
  exception leaving \<^verbatim>\<open>notifyListeners\<close> if any, and a ghost field \<open>invoked\<close> with the
  identities of the subscribers that were called, in call order.\<close>

record 'w dispatched = "'w reaction" +
  invoked :: "nat list"

text \<open>Current copy: \<^verbatim>\<open>callbacks.forEach(callback => { try { callback(data) } catch (error)
  { console.error(...) } })\<close>.\<close>

fun forEach_try ::
  "('d, 'w) callback list \<Rightarrow> 'd \<Rightarrow> 'w dispatched \<Rightarrow> 'w dispatched" where
  "forEach_try [] data acc = acc"
| "forEach_try (cb # cbs) data acc =
    (let r = cb_run cb data (world acc)
     in forEach_try cbs data
          (acc\<lparr>world := world r, requests := requests acc @ requests r,
               invoked := invoked acc @ [cb_id cb]\<rparr>))"

definition notifyListeners ::
  "('d, 'w) listeners \<Rightarrow> string \<Rightarrow> 'd \<Rightarrow> 'w \<Rightarrow> 'w dispatched" where
  "notifyListeners ls event data w =
    (let start = \<lparr>world = w, requests = [], thrown = None, invoked = []\<rparr>
     in case ls event of
          None \<Rightarrow> start
        | Some callbacks \<Rightarrow> forEach_try callbacks data start)"

text \<open>Earlier copy: \<^verbatim>\<open>callbacks.forEach(callback => callback(data))\<close>. An exception
  thrown by a subscriber leaves \<^verbatim>\<open>forEach\<close> at once.\<close>

fun forEach_legacy ::
  "('d, 'w) callback list \<Rightarrow> 'd \<Rightarrow> 'w dispatched \<Rightarrow> 'w dispatched" where
  "forEach_legacy [] data acc = acc"
| "forEach_legacy (cb # cbs) data acc =
    (let r = cb_run cb data (world acc);
         acc = acc\<lparr>world := world r, requests := requests acc @ requests r,
                   invoked := invoked acc @ [cb_id cb]\<rparr>
     in case thrown r of
          Some e \<Rightarrow> acc\<lparr>thrown := Some e\<rparr>
        | None \<Rightarrow> forEach_legacy cbs data acc)"

definition notifyListeners_legacy ::
  "('d, 'w) listeners \<Rightarrow> string \<Rightarrow> 'd \<Rightarrow> 'w \<Rightarrow> 'w dispatched" where
  "notifyListeners_legacy ls event data w =
    (let start = \<lparr>world = w, requests = [], thrown = None, invoked = []\<rparr>
     in case ls event of
          None \<Rightarrow> start
        | Some callbacks \<Rightarrow> forEach_legacy callbacks data start)"

subsection \<open>Transport Client\<close>

text \<open>
  The static fields \<^verbatim>\<open>ws\<close> and \<^verbatim>\<open>isReconnecting\<close>, together with what the browser
  holds for the service: every \<^verbatim>\<open>WebSocket\<close> object created so far with its
  \<^verbatim>\<open>readyState\<close> (a socket is named by its position in \<open>sockets\<close>), and the number of
  pending \<^verbatim>\<open>setTimeout(() => this.connectWebSocket(), 5000)\<close> timers.
\<close>

datatype readyState = CONNECTING | OPEN | CLOSING | CLOSED

record transport =
  sockets :: "readyState list"
  ws :: "nat option"
  isReconnecting :: bool
  timers :: nat

definition ws_is_open :: "transport \<Rightarrow> bool" where
  "ws_is_open s =
    (case ws s of
       None \<Rightarrow> False
     | Some i \<Rightarrow> i < length (sockets s) \<and> sockets s ! i = OPEN)"

text \<open>\<open>ctor_throws\<close> says whether \<^verbatim>\<open>new WebSocket(...)\<close> throws in this call.\<close>

definition connectWebSocket :: "bool \<Rightarrow> transport \<Rightarrow> transport" where
  "connectWebSocket ctor_throws s =
    (if ws_is_open s then s
     else if isReconnecting s then s
     else
       (let s = s\<lparr>isReconnecting := True\<rparr>
        in if ctor_throws then s\<lparr>isReconnecting := False\<rparr>
           else s\<lparr>sockets := sockets s @ [CONNECTING], ws := Some (length (sockets s))\<rparr>))"

text \<open>The earlier copy has neither the flag nor the \<^verbatim>\<open>try\<close>: a throwing constructor
  leaves \<^verbatim>\<open>connectWebSocket\<close> as an exception.\<close>

definition connectWebSocket_legacy :: "bool \<Rightarrow> transport \<Rightarrow> exn + transport" where
  "connectWebSocket_legacy ctor_throws s =
    (if ws_is_open s then Inr s
     else if ctor_throws then Inl (Error ''WebSocket constructor'')
     else Inr (s\<lparr>sockets := sockets s @ [CONNECTING], ws := Some (length (sockets s))\<rparr>))"

text \<open>The browser's events on socket \<open>i\<close>, each followed by the handler that
  \<^verbatim>\<open>connectWebSocket\<close> installed on it, and the firing of a reconnect timer.\<close>

definition socket_opened :: "nat \<Rightarrow> transport \<Rightarrow> transport" where
  "socket_opened i s = s\<lparr>sockets := (sockets s)[i := OPEN], isReconnecting := False\<rparr>"

definition socket_error :: "nat \<Rightarrow> transport \<Rightarrow> transport" where
  "socket_error i s = s\<lparr>isReconnecting := False\<rparr>"

definition socket_closed :: "nat \<Rightarrow> transport \<Rightarrow> transport" where
  "socket_closed i s =
    s\<lparr>sockets := (sockets s)[i := CLOSED], isReconnecting := False, timers := Suc (timers s)\<rparr>"

definition timer_fired :: "bool \<Rightarrow> transport \<Rightarrow> transport" where
  "timer_fired ctor_throws s =
    (if timers s = 0 then s
     else connectWebSocket ctor_throws (s\<lparr>timers := timers s - 1\<rparr>))"

definition initial_transport :: transport where
  "initial_transport = \<lparr>sockets = [], ws = None, isReconnecting = False, timers = 0\<rparr>"

definition live_sockets :: "transport \<Rightarrow> nat" where
  "live_sockets s = length (filter (\<lambda>r. r = OPEN \<or> r = CONNECTING) (sockets s))"

definition open_sockets :: "transport \<Rightarrow> nat" where
  "open_sockets s = length (filter (\<lambda>r. r = OPEN) (sockets s))"

subsection \<open>Domain Client\<close>

text \<open>\<^verbatim>\<open>TransferRequest.id\<close> is named \<open>tr_id\<close> and \<^verbatim>\<open>notes\<close> is named
  \<open>tr_notes\<close>. The \<^verbatim>\<open>status\<close> is a union of string literals in the source and a string
  here.\<close>

record TransferRequest =
  tr_id :: "string option"
  patient_id :: string
  nurse_id :: string
  doctor_id :: "string option"
  department_admin_id :: "string option"
  status :: string
  target_department :: "string option"
  tr_notes :: "string option"
  created_at :: string
  updated_at :: string
  ml_prediction :: "json option"

text \<open>What \<^verbatim>\<open>fetch\<close> resolves to. \<open>payload\<close> is the result of \<^verbatim>\<open>response.json()\<close> and
  \<open>body_text\<close> that of \<^verbatim>\<open>response.text()\<close>; \<^verbatim>\<open>response.status\<close> is named \<open>http_status\<close>.
  A rejected \<^verbatim>\<open>fetch\<close> is an \<open>Inl\<close>.\<close>

record 'a http_response =
  ok :: bool
  http_status :: nat
  statusText :: string
  body_text :: string
  payload :: 'a

datatype api_error = ApiError nat string | Rejected exn

definition API_BASE_URL :: string where
  "API_BASE_URL = ''http://localhost:8000''"

definition getAllPatients_request :: http_request where
  "getAllPatients_request = \<lparr>http_method = ''GET'', url = API_BASE_URL @ ''/patients'', body = None\<rparr>"

definition getTransferRequests_request :: http_request where
  "getTransferRequests_request =
    \<lparr>http_method = ''GET'', url = API_BASE_URL @ ''/transfer-requests'', body = None\<rparr>"

text \<open>The part of \<^verbatim>\<open>getAllPatients\<close> and \<^verbatim>\<open>getTransferRequests\<close> after the
  \<^verbatim>\<open>await fetch\<close>: a non-2xx answer is thrown with status and status text, a failure
  is logged and thrown again.\<close>

definition fetched_list :: "exn + 'a http_response \<Rightarrow> api_error + 'a" where
  "fetched_list r =
    (case r of
       Inl e \<Rightarrow> Inl (Rejected e)
     | Inr response \<Rightarrow>
         if \<not> ok response then Inl (ApiError (http_status response) (statusText response))
         else Inr (payload response))"

text \<open>\<^verbatim>\<open>notes || "..."\<close> on an optional string: absent and empty are both false.\<close>

definition str_or :: "string option \<Rightarrow> string \<Rightarrow> string" where
  "str_or x d = (case x of None \<Rightarrow> d | Some v \<Rightarrow> if v = [] then d else v)"

text \<open>The requests of the mutating calls on a transfer request. \<open>updateData\<close> is the
  \<^verbatim>\<open>Partial<TransferRequest>\<close> as the list of the properties it has; the spread
  \<^verbatim>\<open>{...updateData, updated_at: now}\<close> overwrites or appends the one property.\<close>

definition updateTransferRequest_request ::
  "string \<Rightarrow> string \<Rightarrow> (string \<times> json) list \<Rightarrow> http_request" where
  "updateTransferRequest_request now requestId updateData =
    \<lparr>http_method = ''PUT'', url = API_BASE_URL @ ''/transfer-request/'' @ requestId,
     body = Some (JObj (AList.update ''updated_at'' (JStr now) updateData))\<rparr>"

definition rejectTransferRequest_request ::
  "string \<Rightarrow> string \<Rightarrow> string option \<Rightarrow> http_request" where
  "rejectTransferRequest_request requestId doctorId notes_opt =
    \<lparr>http_method = ''PUT'', url = API_BASE_URL @ ''/transfer-request/'' @ requestId @ ''/reject'',
     body = Some (JObj [(''doctor_id'', JStr doctorId),
                        (''notes'', JStr (str_or notes_opt ''Transfer request rejected by doctor''))])\<rparr>"

definition approveTransferRequest_request ::
  "string \<Rightarrow> string \<Rightarrow> string \<Rightarrow> string option \<Rightarrow> http_request" where
  "approveTransferRequest_request requestId doctorId targetDepartment notes_opt =
    \<lparr>http_method = ''PUT'', url = API_BASE_URL @ ''/transfer-request/'' @ requestId @ ''/approve'',
     body = Some (JObj [(''doctor_id'', JStr doctorId),
                        (''target_department'', JStr targetDepartment),
                        (''notes'', JStr (str_or notes_opt ''Transfer approved by doctor''))])\<rparr>"

definition adminApproveTransferRequest_request ::
  "string \<Rightarrow> string \<Rightarrow> string \<Rightarrow> string option \<Rightarrow> http_request" where
  "adminApproveTransferRequest_request requestId adminId targetDepartment notes_opt =
    \<lparr>http_method = ''PUT'',
     url = API_BASE_URL @ ''/transfer-request/'' @ requestId @ ''/admin-approve'',
     body = Some (JObj [(''admin_id'', JStr adminId),
                        (''target_department'', JStr targetDepartment),
                        (''notes'', JStr (str_or notes_opt ''Transfer approved by admin''))])\<rparr>"

definition dischargePatient_request ::
  "string \<Rightarrow> string \<Rightarrow> string option \<Rightarrow> http_request" where
  "dischargePatient_request requestId nurseId notes_opt =
    \<lparr>http_method = ''POST'',
     url = API_BASE_URL @ ''/transfer-request/'' @ requestId @ ''/discharge'',
     body = Some (JObj [(''nurse_id'', JStr nurseId), (''notes'', JStr (str_or notes_opt []))])\<rparr>"

text \<open>The earlier copy of \<^verbatim>\<open>updateTransferRequest\<close> sends \<^verbatim>\<open>updateData\<close> as it is.\<close>

definition updateTransferRequest_request_legacy ::
  "string \<Rightarrow> (string \<times> json) list \<Rightarrow> http_request" where
  "updateTransferRequest_request_legacy requestId updateData =
    \<lparr>http_method = ''PUT'', url = API_BASE_URL @ ''/transfer-request/'' @ requestId,
     body = Some (JObj updateData)\<rparr>"

text \<open>Each call sends its request through \<open>fetch\<close> and reads the answer: a non-2xx answer is
  thrown with the status and the response text, otherwise \<^verbatim>\<open>result.data\<close> is returned
  (for the discharge, the parsed answer itself). The outcome carries the request sent.\<close>

definition result_data :: "json \<Rightarrow> api_error + json option" where
  "result_data result =
    (case result of
       JNull \<Rightarrow> Inl (Rejected (TypeError ''Cannot read properties of null (reading data)''))
     | JObj kvs \<Rightarrow> Inr (map_of kvs ''data'')
     | _ \<Rightarrow> Inr None)"

definition send_expect_data ::
  "(http_request \<Rightarrow> exn + json http_response) \<Rightarrow> http_request
     \<Rightarrow> http_request \<times> (api_error + json option)" where
  "send_expect_data fetch req =
    (req,
     case fetch req of
       Inl e \<Rightarrow> Inl (Rejected e)
     | Inr response \<Rightarrow>
         if \<not> ok response then Inl (ApiError (http_status response) (body_text response))
         else result_data (payload response))"

definition updateTransferRequest ::
  "(http_request \<Rightarrow> exn + json http_response) \<Rightarrow> string \<Rightarrow> string \<Rightarrow> (string \<times> json) list
     \<Rightarrow> http_request \<times> (api_error + json option)" where
  "updateTransferRequest fetch now requestId updateData =
    send_expect_data fetch (updateTransferRequest_request now requestId updateData)"

definition rejectTransferRequest ::
  "(http_request \<Rightarrow> exn + json http_response) \<Rightarrow> string \<Rightarrow> string \<Rightarrow> string option
     \<Rightarrow> http_request \<times> (api_error + json option)" where
  "rejectTransferRequest fetch requestId doctorId notes_opt =
    send_expect_data fetch (rejectTransferRequest_request requestId doctorId notes_opt)"

definition approveTransferRequest ::
  "(http_request \<Rightarrow> exn + json http_response) \<Rightarrow> string \<Rightarrow> string \<Rightarrow> string \<Rightarrow> string option
     \<Rightarrow> http_request \<times> (api_error + json option)" where
  "approveTransferRequest fetch requestId doctorId targetDepartment notes_opt =
    send_expect_data fetch
      (approveTransferRequest_request requestId doctorId targetDepartment notes_opt)"

definition adminApproveTransferRequest ::
  "(http_request \<Rightarrow> exn + json http_response) \<Rightarrow> string \<Rightarrow> string \<Rightarrow> string \<Rightarrow> string option
     \<Rightarrow> http_request \<times> (api_error + json option)" where
  "adminApproveTransferRequest fetch requestId adminId targetDepartment notes_opt =
    send_expect_data fetch
      (adminApproveTransferRequest_request requestId adminId targetDepartment notes_opt)"

definition dischargePatient ::
  "(http_request \<Rightarrow> exn + json http_response) \<Rightarrow> string \<Rightarrow> string \<Rightarrow> string option
     \<Rightarrow> http_request \<times> (api_error + json)" where
  "dischargePatient fetch requestId nurseId notes_opt =
    (let req = dischargePatient_request requestId nurseId notes_opt
     in (req,
         case fetch req of
           Inl e \<Rightarrow> Inl (Rejected e)
         | Inr response \<Rightarrow>
             if \<not> ok response then Inl (ApiError (http_status response) (body_text response))
             else Inr (payload response)))"

text \<open>The properties of a request body.\<close>

definition body_keys :: "http_request \<Rightarrow> string list" where
  "body_keys req = (case body req of Some (JObj kvs) \<Rightarrow> map fst kvs | _ \<Rightarrow> [])"

definition body_field :: "http_request \<Rightarrow> string \<Rightarrow> json option" where
  "body_field req k = (case body req of Some (JObj kvs) \<Rightarrow> map_of kvs k | _ \<Rightarrow> None)"

subsection \<open>Sync Coordinator\<close>

text \<open>The static fields of the service that the message handler reads: the subscriber
  lists and the two callback slots (\<open>None\<close> is \<^verbatim>\<open>null\<close>).\<close>

record ('d, 'w) service =
  listeners :: "('d, 'w) listeners"
  patientDataCallback :: "(Patient list \<Rightarrow> 'w \<Rightarrow> 'w reaction) option"
  transferRequestCallback :: "(TransferRequest list \<Rightarrow> 'w \<Rightarrow> 'w reaction) option"

definition setPatientDataCallback ::
  "(Patient list \<Rightarrow> 'w \<Rightarrow> 'w reaction) \<Rightarrow> ('d, 'w) service \<Rightarrow> ('d, 'w) service" where
  "setPatientDataCallback cb svc = svc\<lparr>patientDataCallback := Some cb\<rparr>"

definition setTransferRequestCallback ::
  "(TransferRequest list \<Rightarrow> 'w \<Rightarrow> 'w reaction) \<Rightarrow> ('d, 'w) service \<Rightarrow> ('d, 'w) service" where
  "setTransferRequestCallback cb svc = svc\<lparr>transferRequestCallback := Some cb\<rparr>"

text \<open>A refresh under way: the request that was issued and the callback that was handed
  to \<^verbatim>\<open>.then\<close> when it was issued.\<close>

record ('a, 'w) refresh =
  awaited :: http_request
  then_callback :: "'a \<Rightarrow> 'w \<Rightarrow> 'w reaction"

text \<open>\<^verbatim>\<open>triggerPatientDataRefresh\<close> and \<^verbatim>\<open>triggerTransferRequestRefresh\<close>: with a callback
  in the slot, \<^verbatim>\<open>this.getAllPatients().then(this.patientDataCallback).catch(console.error)\<close>
  requests the list and hands the callback that is in the slot at this moment to
  \<^verbatim>\<open>.then\<close>; with an empty slot nothing happens.\<close>

definition triggerPatientDataRefresh ::
  "('d, 'w) service \<Rightarrow> (Patient list, 'w) refresh option" where
  "triggerPatientDataRefresh svc =
    (case patientDataCallback svc of
       None \<Rightarrow> None
     | Some cb \<Rightarrow> Some \<lparr>awaited = getAllPatients_request, then_callback = cb\<rparr>)"

definition triggerTransferRequestRefresh ::
  "('d, 'w) service \<Rightarrow> (TransferRequest list, 'w) refresh option" where
  "triggerTransferRequestRefresh svc =
    (case transferRequestCallback svc of
       None \<Rightarrow> None
     | Some cb \<Rightarrow> Some \<lparr>awaited = getTransferRequests_request, then_callback = cb\<rparr>)"

text \<open>What happens when the request of a refresh settles: a fetched list goes to the
  callback of the refresh; a failed fetch, and an exception of the callback, go to
  \<^verbatim>\<open>.catch(console.error)\<close>.\<close>

definition refresh_settled ::
  "('a, 'w) refresh \<Rightarrow> exn + 'a http_response \<Rightarrow> 'w \<Rightarrow> 'w reaction" where
  "refresh_settled pending result w =
    (case fetched_list result of
       Inl e \<Rightarrow> \<lparr>world = w, requests = [], thrown = None\<rparr>
     | Inr fresh \<Rightarrow> (then_callback pending fresh w)\<lparr>thrown := None\<rparr>)"

definition issued :: "('a, 'w) refresh option \<Rightarrow> http_request list" where
  "issued pending = (case pending of None \<Rightarrow> [] | Some r \<Rightarrow> [awaited r])"

text \<open>An inbound frame: \<^verbatim>\<open>JSON.parse(event.data)\<close> either throws or gives an envelope
  with its \<^verbatim>\<open>type\<close> and \<^verbatim>\<open>data\<close>. A frame that parses to \<^verbatim>\<open>null\<close> makes
  \<^verbatim>\<open>data.type\<close> throw inside the same \<^verbatim>\<open>try\<close> and is an \<open>Unparseable\<close> here.\<close>

datatype 'd inbound = Unparseable | Envelope string 'd

definition refreshes_patients :: "string \<Rightarrow> bool" where
  "refreshes_patients ty \<longleftrightarrow>
     ty = ''vitals_update'' \<or> ty = ''patient_updated'' \<or> ty = ''patient_discharged''"

definition refreshes_transfer_requests :: "string \<Rightarrow> bool" where
  "refreshes_transfer_requests ty \<longleftrightarrow>
     ty = ''transfer_request_created'' \<or> ty = ''transfer_request_updated''
       \<or> ty = ''patient_discharged''"

text \<open>What handling one frame leaves: the outcome of the dispatch, with the requests of
  the refreshes added to those of the subscribers, and the refreshes now under way.\<close>

record 'w handled = "'w dispatched" +
  patient_refresh :: "(Patient list, 'w) refresh option"
  transfer_request_refresh :: "(TransferRequest list, 'w) refresh option"

text \<open>The \<^verbatim>\<open>onmessage\<close> handler installed by \<^verbatim>\<open>connectWebSocket\<close>. Whatever is thrown
  inside is caught and logged.\<close>

definition onmessage :: "('d, 'w) service \<Rightarrow> 'd inbound \<Rightarrow> 'w \<Rightarrow> 'w handled" where
  "onmessage svc event w =
    (case event of
       Unparseable \<Rightarrow>
         \<lparr>world = w, requests = [], thrown = None, invoked = [],
          patient_refresh = None, transfer_request_refresh = None\<rparr>
     | Envelope ty data \<Rightarrow>
         (let r = notifyListeners (listeners svc) ty data w
          in case thrown r of
               Some e \<Rightarrow>
                 \<lparr>world = world r, requests = requests r, thrown = None, invoked = invoked r,
                  patient_refresh = None, transfer_request_refresh = None\<rparr>
             | None \<Rightarrow>
                 (let patients_pending =
                        (if refreshes_patients ty then triggerPatientDataRefresh svc else None);
                      requests_pending =
                        (if refreshes_transfer_requests ty
                         then triggerTransferRequestRefresh svc else None)
                  in \<lparr>world = world r,
                      requests = requests r @ issued patients_pending @ issued requests_pending,
                      thrown = None, invoked = invoked r,
                      patient_refresh = patients_pending,
                      transfer_request_refresh = requests_pending\<rparr>)))"

text \<open>The earlier copy only dispatches; the handler's \<^verbatim>\<open>try\<close> catches what a subscriber
  throws.\<close>

definition onmessage_legacy :: "('d, 'w) listeners \<Rightarrow> 'd inbound \<Rightarrow> 'w \<Rightarrow> 'w dispatched" where
  "onmessage_legacy ls event w =
    (case event of
       Unparseable \<Rightarrow> \<lparr>world = w, requests = [], thrown = None, invoked = []\<rparr>
     | Envelope ty data \<Rightarrow> (notifyListeners_legacy ls ty data w)\<lparr>thrown := None\<rparr>)"

text \<open>How many of the requests issued are fetches of the patient list and of the
  transfer-request list.\<close>

definition patient_refetches :: "http_request list \<Rightarrow> nat" where
  "patient_refetches rs = length (filter (\<lambda>r. r = getAllPatients_request) rs)"

definition transfer_request_refetches :: "http_request list \<Rightarrow> nat" where
  "transfer_request_refetches rs = length (filter (\<lambda>r. r = getTransferRequests_request) rs)"

subsection \<open>The nurse dashboard and its subscribers\<close>

text \<open>
  The React state of the dashboard that its subscribers write, and the payloads the server
  pairs with the event types. \<open>clock\<close> stands for \<^verbatim>\<open>new Date()\<close> and \<^verbatim>\<open>Date.now()\<close>
  at the time of the call. A subscriber given a payload of another shape finds no
  \<^verbatim>\<open>patient_id\<close> or request in it and is modelled as leaving the lists as they are.
\<close>

record notification =
  n_id :: nat
  n_type :: string
  n_title :: string
  n_message :: string
  n_timestamp :: string

record dashboard =
  patients :: "Patient list"
  transferRequests :: "TransferRequest list"
  notifications :: "notification list"
  lastUpdate :: string
  error_banner :: "string option"

record clock =
  now_iso :: string
  now_ms :: nat

record vitals_update =
  vu_patient_id :: string
  vu_heartRate :: real
  vu_spO2 :: real
  vu_respiratoryRate :: real
  vu_systolicBP :: real
  vu_lactate :: real
  vu_gcs :: real

datatype payload =
  VitalsData vitals_update
  | RequestData TransferRequest
  | DischargeData "string option"
  | OtherData json

definition quiet :: "dashboard \<Rightarrow> dashboard reaction" where
  "quiet w = \<lparr>world = w, requests = [], thrown = None\<rparr>"

definition patch_vitals :: "clock \<Rightarrow> vitals_update \<Rightarrow> Patient \<Rightarrow> Patient" where
  "patch_vitals clk data patient =
    (if patientId patient = vu_patient_id data
     then patient\<lparr>vitals := (vitals patient)\<lparr>heartRate := vu_heartRate data,
                                              spO2 := vu_spO2 data,
                                              respiratoryRate := vu_respiratoryRate data,
                                              systolicBP := vu_systolicBP data,
                                              lactate := vu_lactate data,
                                              gcs := vu_gcs data\<rparr>,
                  lastUpdated := Some (now_iso clk)\<rparr>
     else patient)"

definition handleVitalsUpdate :: "clock \<Rightarrow> payload \<Rightarrow> dashboard \<Rightarrow> dashboard reaction" where
  "handleVitalsUpdate clk data w =
    (case data of
       VitalsData d \<Rightarrow>
         quiet (w\<lparr>patients := map (patch_vitals clk d) (patients w), lastUpdate := now_iso clk\<rparr>)
     | _ \<Rightarrow> quiet (w\<lparr>lastUpdate := now_iso clk\<rparr>))"

definition handleTransferRequestCreated ::
  "clock \<Rightarrow> payload \<Rightarrow> dashboard \<Rightarrow> dashboard reaction" where
  "handleTransferRequestCreated clk data w =
    (case data of
       RequestData d \<Rightarrow>
         quiet (w\<lparr>transferRequests := transferRequests w @ [d],
                  notifications :=
                    \<lparr>n_id = now_ms clk, n_type = ''transfer_request'',
                     n_title = ''New Transfer Request'',
                     n_message = ''Transfer request created for patient '' @ patient_id d,
                     n_timestamp = now_iso clk\<rparr> # notifications w\<rparr>)
     | _ \<Rightarrow> quiet w)"

definition handleTransferRequestUpdated ::
  "clock \<Rightarrow> payload \<Rightarrow> dashboard \<Rightarrow> dashboard reaction" where
  "handleTransferRequestUpdated clk data w =
    (case data of
       RequestData d \<Rightarrow>
         quiet (w\<lparr>transferRequests :=
                    map (\<lambda>req. if tr_id req = tr_id d then d else req) (transferRequests w),
                  notifications :=
                    \<lparr>n_id = now_ms clk, n_type = ''transfer_update'',
                     n_title = ''Transfer Request Updated'',
                     n_message = ''Transfer request ''
                                   @ (case tr_id d of None \<Rightarrow> ''undefined'' | Some i \<Rightarrow> i)
                                   @ '' status: '' @ status d,
                     n_timestamp = now_iso clk\<rparr> # notifications w\<rparr>)
     | _ \<Rightarrow> quiet w)"

text \<open>\<^verbatim>\<open>handlePatientDischarged\<close> calls \<^verbatim>\<open>fetchPatients()\<close> and
  \<^verbatim>\<open>fetchTransferRequests()\<close>, which request the two lists, and adds a notification. The
  argument of \<open>DischargeData\<close> is \<^verbatim>\<open>data?.request_id\<close> as the template renders it, and
  \<open>None\<close> when it is absent; \<^verbatim>\<open>|| ''\<close> turns an absent or empty one into the empty
  string.\<close>

definition handlePatientDischarged ::
  "clock \<Rightarrow> payload \<Rightarrow> dashboard \<Rightarrow> dashboard reaction" where
  "handlePatientDischarged clk data w =
    \<lparr>world = w\<lparr>notifications :=
                  \<lparr>n_id = now_ms clk, n_type = ''patient_discharged'',
                   n_title = ''Patient Discharged'',
                   n_message = ''Patient transfer completed (request ''
                                 @ (case data of DischargeData rid \<Rightarrow> str_or rid [] | _ \<Rightarrow> [])
                                 @ '')'',
                   n_timestamp = now_iso clk\<rparr> # notifications w\<rparr>,
     requests = [getAllPatients_request, getTransferRequests_request],
     thrown = None\<rparr>"

text \<open>The two callbacks the dashboard puts into the slots.\<close>

definition dashboard_patients_callback ::
  "clock \<Rightarrow> Patient list \<Rightarrow> dashboard \<Rightarrow> dashboard reaction" where
  "dashboard_patients_callback clk updated w =
    quiet (w\<lparr>patients := updated, lastUpdate := now_iso clk\<rparr>)"

definition dashboard_requests_callback ::
  "TransferRequest list \<Rightarrow> dashboard \<Rightarrow> dashboard reaction" where
  "dashboard_requests_callback updated w = quiet (w\<lparr>transferRequests := updated\<rparr>)"

definition empty_service :: "(payload, dashboard) service" where
  "empty_service =
    \<lparr>listeners = Map.empty, patientDataCallback = None, transferRequestCallback = None\<rparr>"

text \<open>The service after the dashboard's \<^verbatim>\<open>useEffect\<close> has run: both callbacks set and
  the four subscribers added, in the order of the source.\<close>

definition dashboard_service :: "clock \<Rightarrow> (payload, dashboard) service" where
  "dashboard_service clk =
    (let svc = setPatientDataCallback (dashboard_patients_callback clk) empty_service;
         svc = setTransferRequestCallback dashboard_requests_callback svc;
         ls = listeners svc;
         ls = addListener ''vitals_update'' \<lparr>cb_id = 1, cb_run = handleVitalsUpdate clk\<rparr> ls;
         ls = addListener ''transfer_request_created''
                \<lparr>cb_id = 2, cb_run = handleTransferRequestCreated clk\<rparr> ls;
         ls = addListener ''transfer_request_updated''
                \<lparr>cb_id = 3, cb_run = handleTransferRequestUpdated clk\<rparr> ls;
         ls = addListener ''patient_discharged''
                \<lparr>cb_id = 4, cb_run = handlePatientDischarged clk\<rparr> ls
     in svc\<lparr>listeners := ls\<rparr>)"

text \<open>The earlier dashboard adds three subscribers and knows no callback slots.\<close>

definition dashboard_listeners_legacy :: "clock \<Rightarrow> (payload, dashboard) listeners" where
  "dashboard_listeners_legacy clk =
    (let ls = Map.empty;
         ls = addListener ''vitals_update'' \<lparr>cb_id = 1, cb_run = handleVitalsUpdate clk\<rparr> ls;
         ls = addListener ''transfer_request_created''
                \<lparr>cb_id = 2, cb_run = handleTransferRequestCreated clk\<rparr> ls;
         ls = addListener ''transfer_request_updated''
                \<lparr>cb_id = 3, cb_run = handleTransferRequestUpdated clk\<rparr> ls
     in ls)"

subsection \<open>Distance of a reading from its safe band\<close>

text \<open>How far a reading lies outside the band \<open>[lo, hi]\<close>, and how far below \<open>lo\<close> for a
  vital with a lower limit only; \<open>0\<close> inside the band.\<close>

definition band_distance :: "real \<Rightarrow> real \<Rightarrow> real \<Rightarrow> real" where
  "band_distance lo hi x = max 0 (max (lo - x) (x - hi))"

definition below_distance :: "real \<Rightarrow> real \<Rightarrow> real" where
  "below_distance lo x = max 0 (lo - x)"

subsection \<open>Concrete inputs\<close>

definition stable_vitals :: PatientVitals where
  "stable_vitals =
    \<lparr>heartRate = 80, spO2 = 98, temperature = Some 98.6, systolicBP = 120,
     diastolicBP = Some 80, respiratoryRate = 16, gcs = 15, lactate = 1.0, meanBP = None,
     centralVenousPressure = None\<rparr>"

definition stable_patient :: Patient where
  "stable_patient =
    \<lparr>patientId = ''P1'', patientName = ''P One'', age = 50, vitals = stable_vitals,
     labValues = None, comorbidities = Some [], onVentilator = False, onPressors = False,
     lengthOfStay = None, admissionType = None, comorbidityScore = None, prediction = None,
     lastUpdated = None\<rparr>"

text \<open>A ventilated patient whose record has no \<^verbatim>\<open>comorbidities\<close> property.\<close>

definition ventilated_patient :: Patient where
  "ventilated_patient = stable_patient\<lparr>comorbidities := None, onVentilator := True\<rparr>"

text \<open>Lactate 5.2 and nothing else amiss; and the same patient on vasopressors.\<close>

definition lactate_patient :: Patient where
  "lactate_patient = stable_patient\<lparr>vitals := stable_vitals\<lparr>lactate := 5.2\<rparr>\<rparr>"

definition lactate_pressor_patient :: Patient where
  "lactate_pressor_patient = lactate_patient\<lparr>onPressors := True\<rparr>"

text \<open>Three subscribers over a state that is a log of numbers: the first throws, the
  others write their mark.\<close>

definition throwing_subscriber :: "(unit, nat list) callback" where
  "throwing_subscriber =
    \<lparr>cb_id = 1,
     cb_run = (\<lambda>data w. \<lparr>world = w, requests = [], thrown = Some (Error ''subscriber failed'')\<rparr>)\<rparr>"

definition marking_subscriber :: "nat \<Rightarrow> (unit, nat list) callback" where
  "marking_subscriber i =
    \<lparr>cb_id = i, cb_run = (\<lambda>data w. \<lparr>world = w @ [i], requests = [], thrown = None\<rparr>)\<rparr>"

definition three_subscribers :: "(unit, nat list) listeners" where
  "three_subscribers =
    addListener ''ping'' (marking_subscriber 3)
      (addListener ''ping'' (marking_subscriber 2)
        (addListener ''ping'' throwing_subscriber Map.empty))"

text \<open>The transport after a first connection was opened and then closed by the server: the
  reconnect timer is pending.\<close>

definition reconnect_scheduled :: transport where
  "reconnect_scheduled =
    socket_closed 0 (socket_opened 0 (connectWebSocket False initial_transport))"

definition transport_connected :: transport where
  "transport_connected = socket_opened 0 (connectWebSocket False initial_transport)"

definition transport_connecting :: transport where
  "transport_connecting = connectWebSocket False initial_transport"

definition noon :: clock where
  "noon = \<lparr>now_iso = ''2025-01-01T12:00:00.000Z'', now_ms = 43200000\<rparr>"

definition ward :: dashboard where
  "ward =
    \<lparr>patients = [stable_patient], transferRequests = [], notifications = [],
     lastUpdate = ''2025-01-01T11:00:00.000Z'', error_banner = None\<rparr>"

definition vitals_reading :: vitals_update where
  "vitals_reading =
    \<lparr>vu_patient_id = ''P1'', vu_heartRate = 130, vu_spO2 = 97, vu_respiratoryRate = 18,
     vu_systolicBP = 118, vu_lactate = 1.4, vu_gcs = 15\<rparr>"

definition vitals_frame :: "payload inbound" where
  "vitals_frame = Envelope ''vitals_update'' (VitalsData vitals_reading)"

definition discharge_frame :: "payload inbound" where
  "discharge_frame = Envelope ''patient_discharged'' (DischargeData (Some ''42''))"

subsection \<open>Reading the state\<close>

text \<open>The subscribers registered for an event, in the order of the array.\<close>

definition subscribers :: "('d, 'w) listeners \<Rightarrow> string \<Rightarrow> ('d, 'w) callback list" where
  "subscribers ls event = (case ls event of None \<Rightarrow> [] | Some callbacks \<Rightarrow> callbacks)"

text \<open>A successful answer to the request for the patient list, and one for the
  transfer-request list.\<close>

definition fresh_patients :: "Patient list http_response" where
  "fresh_patients =
    \<lparr>ok = True, http_status = 200, statusText = ''OK'', body_text = [],
     payload = [lactate_patient]\<rparr>"

definition open_request :: TransferRequest where
  "open_request =
    \<lparr>tr_id = Some ''42'', patient_id = ''P1'', nurse_id = ''nurse-1'', doctor_id = None,
     department_admin_id = None, status = ''pending'', target_department = None,
     tr_notes = None, created_at = ''2025-01-01T10:00:00.000Z'',
     updated_at = ''2025-01-01T10:00:00.000Z'', ml_prediction = None\<rparr>"

definition fresh_requests :: "TransferRequest list http_response" where
  "fresh_requests =
    \<lparr>ok = True, http_status = 200, statusText = ''OK'', body_text = [],
     payload = [open_request]\<rparr>"

text \<open>Answers of a server that is not available.\<close>

definition unavailable_patients :: "Patient list http_response" where
  "unavailable_patients =
    \<lparr>ok = False, http_status = 503, statusText = ''Service Unavailable'', body_text = [],
     payload = []\<rparr>"

definition unavailable_requests :: "TransferRequest list http_response" where
  "unavailable_requests =
    \<lparr>ok = False, http_status = 503, statusText = ''Service Unavailable'', body_text = [],
     payload = []\<rparr>"

section \<open>Properties of the fallback rule engine\<close>

subsection \<open>What the try block computes\<close>

lemma try_catch_Inr: "try_catch (Inr v) handler = Inr v"
  by (simp add: try_catch_def)

lemma try_catch_Inl: "try_catch (Inl e) handler = handler e"
  by (simp add: try_catch_def)

lemma fallbackPrediction_try_Inr:
  "fallbackPrediction_try now p =
     Inr \<lparr>transferReady = fst (decide p (calculateSOFAScore p) (assessVitalStability (vitals p))),
          confidence =
            fst (snd (decide p (calculateSOFAScore p) (assessVitalStability (vitals p)))),
          reasoning =
            snd (snd (decide p (calculateSOFAScore p) (assessVitalStability (vitals p)))),
          riskFactors = identifyRiskFactors p, timestamp = Some now\<rparr>"
  by (simp add: fallbackPrediction_try_def Let_def split: prod.splits)

lemma fallbackPrediction_Inr:
  "fallbackPrediction now p =
     Inr \<lparr>transferReady = fst (decide p (calculateSOFAScore p) (assessVitalStability (vitals p))),
          confidence =
            fst (snd (decide p (calculateSOFAScore p) (assessVitalStability (vitals p)))),
          reasoning =
            snd (snd (decide p (calculateSOFAScore p) (assessVitalStability (vitals p)))),
          riskFactors = identifyRiskFactors p, timestamp = Some now\<rparr>"
  by (simp add: fallbackPrediction_def fallbackPrediction_try_Inr try_catch_Inr)

lemma fallbackPrediction_try_legacy_None:
  "comorbidities p = None \<Longrightarrow>
   fallbackPrediction_try_legacy now p =
     Inl (TypeError ''Cannot read properties of undefined (reading reduce)'')"
  by (simp add: fallbackPrediction_try_legacy_def calculateComorbidityScore_legacy_def Let_def)

lemma identifyRiskFactors_legacy_Some:
  "comorbidities p = Some cs \<Longrightarrow> identifyRiskFactors_legacy p = Inr (identifyRiskFactors p)"
  by (simp add: identifyRiskFactors_legacy_def identifyRiskFactors_def comorbidities_gt2_def
      Let_def)

lemma fallbackPrediction_try_legacy_Some:
  "comorbidities p = Some cs \<Longrightarrow>
   fallbackPrediction_try_legacy now p = fallbackPrediction_try now p"
  by (simp add: fallbackPrediction_try_legacy_def fallbackPrediction_try_def
      calculateComorbidityScore_legacy_def identifyRiskFactors_legacy_Some Let_def)

lemma fallbackPrediction_legacy_None:
  "comorbidities p = None \<Longrightarrow>
   fallbackPrediction_legacy now p = Inr (assessment_unavailable now)"
  by (simp add: fallbackPrediction_legacy_def fallbackPrediction_try_legacy_None try_catch_Inl)

lemma fallbackPrediction_legacy_Some:
  "comorbidities p = Some cs \<Longrightarrow> fallbackPrediction_legacy now p = fallbackPrediction now p"
  by (simp add: fallbackPrediction_legacy_def fallbackPrediction_def
      fallbackPrediction_try_legacy_Some)

subsection \<open>The decision list\<close>

lemma decide_life_support:
  "onVentilator p \<or> onPressors p \<Longrightarrow>
   decide p s v =
     (False, 0.95, ''Patient requires intensive care support (ventilator/pressors)'')"
  by (simp add: decide_def)

lemma decide_cases:
  "(\<not> fst (decide p s v) \<and> fst (snd (decide p s v)) \<in> {0.8, 0.85, 0.88, 0.9, 0.95}) \<or>
   (fst (decide p s v) \<and> 0.7 \<le> v \<and> fst (snd (decide p s v)) = min 0.95 (0.7 + v * 0.25))"
  by (simp add: decide_def)

lemma decide_lactate_not_ready: "lactate (vitals p) > 4 \<Longrightarrow> \<not> fst (decide p s v)"
  by (simp add: decide_def)

lemma decide_lactate_branch:
  "\<not> onVentilator p \<Longrightarrow> \<not> onPressors p \<Longrightarrow> s < 6 \<Longrightarrow> lactate (vitals p) > 4 \<Longrightarrow>
   decide p s v = (False, 0.88, ''Elevated lactate suggests ongoing tissue hypoperfusion'')"
  by (simp add: decide_def)

lemma elevated_lactate_factor:
  "lactate (vitals p) > 2 \<Longrightarrow> ''Elevated lactate'' \<in> set (identifyRiskFactors p)"
  by (simp add: identifyRiskFactors_def push_if_def Let_def)

text \<open>For the current copy the property of the spec holds for every patient on life
  support; the earlier copy agrees when the record has a comorbidity list.\<close>

lemma fallbackPrediction_life_support:
  assumes "onVentilator p \<or> onPressors p"
  shows "\<exists>r. fallbackPrediction now p = Inr r \<and> \<not> transferReady r \<and> confidence r = 0.95"
  using assms by (simp add: fallbackPrediction_Inr decide_life_support)

lemma fallbackPrediction_legacy_life_support:
  assumes "onVentilator p \<or> onPressors p" and "comorbidities p = Some cs"
  shows "\<exists>r. fallbackPrediction_legacy now p = Inr r \<and> \<not> transferReady r
            \<and> confidence r = 0.95"
  using assms fallbackPrediction_life_support [of p now]
  by (simp add: fallbackPrediction_legacy_Some)

subsection \<open>The stability score\<close>

lemma heartRatePenalty_eq: "heartRatePenalty hr = (if hr < 60 \<or> hr > 120 then 0.2 else 0)"
  by (auto simp: heartRatePenalty_def)

lemma spO2Penalty_eq: "spO2Penalty s = (if s < 95 then 0.3 else 0)"
  by (auto simp: spO2Penalty_def)

lemma assessVitalStability_eq:
  "assessVitalStability v =
     max 0 (1 - heartRatePenalty (heartRate v) - spO2Penalty (spO2 v)
              - bloodPressurePenalty (systolicBP v) (diastolicBP v)
              - temperaturePenalty (temperature v)
              - respiratoryRatePenalty (respiratoryRate v))"
  by (simp add: assessVitalStability_def Let_def)

lemma heartRatePenalty_mono:
  "band_distance 60 120 x \<le> band_distance 60 120 x' \<Longrightarrow>
   heartRatePenalty x \<le> heartRatePenalty x'"
  by (auto simp: heartRatePenalty_eq band_distance_def split: if_splits)

lemma spO2Penalty_mono:
  "below_distance 95 x \<le> below_distance 95 x' \<Longrightarrow> spO2Penalty x \<le> spO2Penalty x'"
  by (auto simp: spO2Penalty_eq below_distance_def split: if_splits)

lemma respiratoryRatePenalty_mono:
  "band_distance 12 24 x \<le> band_distance 12 24 x' \<Longrightarrow>
   respiratoryRatePenalty x \<le> respiratoryRatePenalty x'"
  by (auto simp: respiratoryRatePenalty_def band_distance_def split: if_splits)

lemma temperaturePenalty_mono:
  "x' \<noteq> 0 \<Longrightarrow> band_distance 96 101.5 x \<le> band_distance 96 101.5 x' \<Longrightarrow>
   temperaturePenalty (Some x) \<le> temperaturePenalty (Some x')"
  by (auto simp: temperaturePenalty_def band_distance_def split: if_splits)

lemma systolic_mono:
  "band_distance (195 - 2 * num_or dia 60) 180 x
     \<le> band_distance (195 - 2 * num_or dia 60) 180 x' \<Longrightarrow>
   bloodPressurePenalty x dia \<le> bloodPressurePenalty x' dia"
  by (auto simp: bloodPressurePenalty_def band_distance_def Let_def split: if_splits)

lemma diastolic_mono:
  "x' \<noteq> 0 \<Longrightarrow>
   below_distance ((195 - sys) / 2) x \<le> below_distance ((195 - sys) / 2) x' \<Longrightarrow>
   bloodPressurePenalty sys (Some x) \<le> bloodPressurePenalty sys (Some x')"
  by (auto simp: bloodPressurePenalty_def below_distance_def num_or_def Let_def max_def
      split: if_splits)

subsection \<open>Claims about the rule engine\<close>

text \<open>
  C1. Claim: for every patient on a ventilator or on pressors the fallback engine returns
  not ready with confidence 0.95, whatever the other fields are and also when the record
  has no comorbidity list. The current copy does so (\<open>fallbackPrediction_life_support\<close>).
  The earlier copy does not: for the ventilated patient without a comorbidity list
  \<^verbatim>\<open>calculateComorbidityScore\<close> raises a \<^verbatim>\<open>TypeError\<close>, the \<^verbatim>\<open>catch\<close> block answers,
  and the confidence is 0.5.
\<close>

theorem fallbackPrediction_legacy_ventilated_without_comorbidities:
  "onVentilator ventilated_patient \<and> comorbidities ventilated_patient = None \<and>
   fallbackPrediction_legacy (now_iso noon) ventilated_patient =
     Inr \<lparr>transferReady = False, confidence = 0.5,
          reasoning = ''Unable to assess - requires clinical evaluation'',
          riskFactors = [''Assessment unavailable''], timestamp = Some (now_iso noon)\<rparr> \<and>
   fallbackPrediction (now_iso noon) ventilated_patient =
     Inr \<lparr>transferReady = False, confidence = 0.95,
          reasoning = ''Patient requires intensive care support (ventilator/pressors)'',
          riskFactors = [''Mechanical ventilation''], timestamp = Some (now_iso noon)\<rparr>"
proof -
  have absent: "comorbidities ventilated_patient = None"
    and vent: "onVentilator ventilated_patient"
    by (simp_all add: ventilated_patient_def)
  have factors: "identifyRiskFactors ventilated_patient = [''Mechanical ventilation'']"
    by (simp add: identifyRiskFactors_def push_if_def Let_def ventilated_patient_def
        stable_patient_def stable_vitals_def num_and_gt_def lab_creatinine_def
        comorbidities_gt2_def)
  show ?thesis
    using absent vent factors
    by (simp add: fallbackPrediction_legacy_None fallbackPrediction_Inr decide_life_support
        assessment_unavailable_def)
qed

text \<open>
  C6. \<^verbatim>\<open>fallbackPrediction\<close> never throws. In the current copy no step of the \<^verbatim>\<open>try\<close>
  block raises on a patient record, so the block's own result is returned. In the earlier
  copy the block raises when the comorbidity list is absent; whenever it raises, the answer
  is the conservative one: not ready, confidence 0.5, reasoning "Unable to assess -
  requires clinical evaluation", risk factors ["Assessment unavailable"].
\<close>

theorem fallbackPrediction_never_throws:
  "(\<exists>r. fallbackPrediction_try now p = Inr r \<and> fallbackPrediction now p = Inr r) \<and>
   (\<exists>r. fallbackPrediction_legacy now p = Inr r) \<and>
   (\<forall>e. fallbackPrediction_try_legacy now p = Inl e \<longrightarrow>
        fallbackPrediction_legacy now p =
          Inr \<lparr>transferReady = False, confidence = 0.5,
               reasoning = ''Unable to assess - requires clinical evaluation'',
               riskFactors = [''Assessment unavailable''], timestamp = Some now\<rparr>)"
proof (intro conjI allI impI)
  show "\<exists>r. fallbackPrediction_try now p = Inr r \<and> fallbackPrediction now p = Inr r"
    by (simp add: fallbackPrediction_try_Inr fallbackPrediction_Inr)
  show "\<exists>r. fallbackPrediction_legacy now p = Inr r"
    by (cases "fallbackPrediction_try_legacy now p")
      (simp_all add: fallbackPrediction_legacy_def try_catch_def)
  fix e
  assume "fallbackPrediction_try_legacy now p = Inl e"
  then show "fallbackPrediction_legacy now p =
      Inr \<lparr>transferReady = False, confidence = 0.5,
           reasoning = ''Unable to assess - requires clinical evaluation'',
           riskFactors = [''Assessment unavailable''], timestamp = Some now\<rparr>"
    by (simp add: fallbackPrediction_legacy_def try_catch_def assessment_unavailable_def)
qed

theorem fallbackPrediction_never_throws_witness:
  "fallbackPrediction_try_legacy (now_iso noon) ventilated_patient =
     Inl (TypeError ''Cannot read properties of undefined (reading reduce)'') \<and>
   fallbackPrediction_legacy (now_iso noon) ventilated_patient =
     Inr \<lparr>transferReady = False, confidence = 0.5,
          reasoning = ''Unable to assess - requires clinical evaluation'',
          riskFactors = [''Assessment unavailable''], timestamp = Some (now_iso noon)\<rparr>"
proof -
  have raised: "fallbackPrediction_try_legacy (now_iso noon) ventilated_patient =
      Inl (TypeError ''Cannot read properties of undefined (reading reduce)'')"
    by (simp add: fallbackPrediction_try_legacy_None ventilated_patient_def)
  with fallbackPrediction_never_throws [of "now_iso noon" ventilated_patient]
  show ?thesis by simp
qed

text \<open>
  C7. Claim: the stability score never increases as any one vital moves further from its
  safe band. This fails where a reading of \<open>0\<close> is taken for an absent one: a temperature
  of 50 costs 0.2, a temperature of 0 costs nothing.
\<close>

theorem stability_rises_when_temperature_falls_to_zero:
  "band_distance 96 101.5 50 < band_distance 96 101.5 0 \<and>
   assessVitalStability (stable_vitals\<lparr>temperature := Some 50\<rparr>) = 0.8 \<and>
   assessVitalStability (stable_vitals\<lparr>temperature := Some 0\<rparr>) = 1"
  by (simp add: band_distance_def assessVitalStability_eq heartRatePenalty_eq spO2Penalty_eq
      bloodPressurePenalty_def temperaturePenalty_def respiratoryRatePenalty_def num_or_def
      stable_vitals_def)

text \<open>
  C7 as amended: with the other vitals fixed, the stability score never increases as the
  heart rate moves further from [60, 120], the SpO2 further below 95, the respiratory rate
  further from [12, 24], or the systolic pressure further from the band in which the mean
  pressure is at least 65 and the systolic at most 180; nor as the temperature moves
  further from [96, 101.5] or the diastolic pressure further below the value that keeps the
  mean pressure at 65, provided the reading moved to is not \<open>0\<close>. The GCS, the lactate,
  the mean pressure and the central venous pressure do not enter the score.
\<close>

theorem assessVitalStability_monotone:
  "(band_distance 60 120 hr \<le> band_distance 60 120 hr' \<longrightarrow>
      assessVitalStability (v\<lparr>heartRate := hr'\<rparr>) \<le> assessVitalStability (v\<lparr>heartRate := hr\<rparr>)) \<and>
   (below_distance 95 s \<le> below_distance 95 s' \<longrightarrow>
      assessVitalStability (v\<lparr>spO2 := s'\<rparr>) \<le> assessVitalStability (v\<lparr>spO2 := s\<rparr>)) \<and>
   (band_distance 12 24 rr \<le> band_distance 12 24 rr' \<longrightarrow>
      assessVitalStability (v\<lparr>respiratoryRate := rr'\<rparr>)
        \<le> assessVitalStability (v\<lparr>respiratoryRate := rr\<rparr>)) \<and>
   (band_distance (195 - 2 * num_or (diastolicBP v) 60) 180 sys
      \<le> band_distance (195 - 2 * num_or (diastolicBP v) 60) 180 sys' \<longrightarrow>
      assessVitalStability (v\<lparr>systolicBP := sys'\<rparr>)
        \<le> assessVitalStability (v\<lparr>systolicBP := sys\<rparr>)) \<and>
   (t' \<noteq> 0 \<and> band_distance 96 101.5 t \<le> band_distance 96 101.5 t' \<longrightarrow>
      assessVitalStability (v\<lparr>temperature := Some t'\<rparr>)
        \<le> assessVitalStability (v\<lparr>temperature := Some t\<rparr>)) \<and>
   (dia' \<noteq> 0 \<and> below_distance ((195 - systolicBP v) / 2) dia
        \<le> below_distance ((195 - systolicBP v) / 2) dia' \<longrightarrow>
      assessVitalStability (v\<lparr>diastolicBP := Some dia'\<rparr>)
        \<le> assessVitalStability (v\<lparr>diastolicBP := Some dia\<rparr>)) \<and>
   assessVitalStability (v\<lparr>gcs := g, lactate := l, meanBP := m, centralVenousPressure := c\<rparr>)
     = assessVitalStability v"
proof (intro conjI impI)
  show "assessVitalStability
      (v\<lparr>gcs := g, lactate := l, meanBP := m, centralVenousPressure := c\<rparr>)
      = assessVitalStability v"
    by (simp add: assessVitalStability_eq)
next
  assume "band_distance 60 120 hr \<le> band_distance 60 120 hr'"
  from heartRatePenalty_mono [OF this]
  show "assessVitalStability (v\<lparr>heartRate := hr'\<rparr>) \<le> assessVitalStability (v\<lparr>heartRate := hr\<rparr>)"
    by (simp add: assessVitalStability_eq)
next
  assume "below_distance 95 s \<le> below_distance 95 s'"
  from spO2Penalty_mono [OF this]
  show "assessVitalStability (v\<lparr>spO2 := s'\<rparr>) \<le> assessVitalStability (v\<lparr>spO2 := s\<rparr>)"
    by (simp add: assessVitalStability_eq)
next
  assume "band_distance 12 24 rr \<le> band_distance 12 24 rr'"
  from respiratoryRatePenalty_mono [OF this]
  show "assessVitalStability (v\<lparr>respiratoryRate := rr'\<rparr>)
      \<le> assessVitalStability (v\<lparr>respiratoryRate := rr\<rparr>)"
    by (simp add: assessVitalStability_eq)
next
  assume "band_distance (195 - 2 * num_or (diastolicBP v) 60) 180 sys
      \<le> band_distance (195 - 2 * num_or (diastolicBP v) 60) 180 sys'"
  from systolic_mono [OF this]
  show "assessVitalStability (v\<lparr>systolicBP := sys'\<rparr>)
      \<le> assessVitalStability (v\<lparr>systolicBP := sys\<rparr>)"
    by (simp add: assessVitalStability_eq)
next
  assume "t' \<noteq> 0 \<and> band_distance 96 101.5 t \<le> band_distance 96 101.5 t'"
  then have "temperaturePenalty (Some t) \<le> temperaturePenalty (Some t')"
    by (simp add: temperaturePenalty_mono)
  then show "assessVitalStability (v\<lparr>temperature := Some t'\<rparr>)
      \<le> assessVitalStability (v\<lparr>temperature := Some t\<rparr>)"
    by (simp add: assessVitalStability_eq)
next
  assume "dia' \<noteq> 0 \<and> below_distance ((195 - systolicBP v) / 2) dia
      \<le> below_distance ((195 - systolicBP v) / 2) dia'"
  then have "bloodPressurePenalty (systolicBP v) (Some dia)
      \<le> bloodPressurePenalty (systolicBP v) (Some dia')"
    by (simp add: diastolic_mono)
  then show "assessVitalStability (v\<lparr>diastolicBP := Some dia'\<rparr>)
      \<le> assessVitalStability (v\<lparr>diastolicBP := Some dia\<rparr>)"
    by (simp add: assessVitalStability_eq)
qed

text \<open>The witness takes the heart rates 100, 130 and 150 and one step outwards for each
  of the other vitals.\<close>

theorem assessVitalStability_monotone_witness:
  "band_distance 60 120 100 \<le> band_distance 60 120 130 \<and>
   assessVitalStability (stable_vitals\<lparr>heartRate := 130\<rparr>)
     \<le> assessVitalStability (stable_vitals\<lparr>heartRate := 100\<rparr>) \<and>
   band_distance 60 120 130 \<le> band_distance 60 120 150 \<and>
   assessVitalStability (stable_vitals\<lparr>heartRate := 150\<rparr>)
     \<le> assessVitalStability (stable_vitals\<lparr>heartRate := 130\<rparr>) \<and>
   below_distance 95 96 \<le> below_distance 95 90 \<and>
   assessVitalStability (stable_vitals\<lparr>spO2 := 90\<rparr>)
     \<le> assessVitalStability (stable_vitals\<lparr>spO2 := 96\<rparr>) \<and>
   band_distance 12 24 20 \<le> band_distance 12 24 30 \<and>
   assessVitalStability (stable_vitals\<lparr>respiratoryRate := 30\<rparr>)
     \<le> assessVitalStability (stable_vitals\<lparr>respiratoryRate := 20\<rparr>) \<and>
   band_distance (195 - 2 * num_or (diastolicBP stable_vitals) 60) 180 120
     \<le> band_distance (195 - 2 * num_or (diastolicBP stable_vitals) 60) 180 200 \<and>
   assessVitalStability (stable_vitals\<lparr>systolicBP := 200\<rparr>)
     \<le> assessVitalStability (stable_vitals\<lparr>systolicBP := 120\<rparr>) \<and>
   (104::real) \<noteq> 0 \<and> band_distance 96 101.5 99 \<le> band_distance 96 101.5 104 \<and>
   assessVitalStability (stable_vitals\<lparr>temperature := Some 104\<rparr>)
     \<le> assessVitalStability (stable_vitals\<lparr>temperature := Some 99\<rparr>) \<and>
   (20::real) \<noteq> 0 \<and>
   below_distance ((195 - systolicBP stable_vitals) / 2) 80
     \<le> below_distance ((195 - systolicBP stable_vitals) / 2) 20 \<and>
   assessVitalStability (stable_vitals\<lparr>diastolicBP := Some 20\<rparr>)
     \<le> assessVitalStability (stable_vitals\<lparr>diastolicBP := Some 80\<rparr>)"
proof -
  have d: "band_distance 60 120 100 \<le> band_distance 60 120 130"
    "band_distance 60 120 130 \<le> band_distance 60 120 150"
    "below_distance 95 96 \<le> below_distance 95 90"
    "band_distance 12 24 20 \<le> band_distance 12 24 30"
    "band_distance (195 - 2 * num_or (diastolicBP stable_vitals) 60) 180 120
       \<le> band_distance (195 - 2 * num_or (diastolicBP stable_vitals) 60) 180 200"
    "(104::real) \<noteq> 0 \<and> band_distance 96 101.5 99 \<le> band_distance 96 101.5 104"
    "(20::real) \<noteq> 0 \<and> below_distance ((195 - systolicBP stable_vitals) / 2) 80
       \<le> below_distance ((195 - systolicBP stable_vitals) / 2) 20"
    by (simp_all add: band_distance_def below_distance_def num_or_def stable_vitals_def)
  from d assessVitalStability_monotone
    [of 100 130 stable_vitals 96 90 20 30 120 200 104 99 20 80]
    assessVitalStability_monotone [of 130 150 stable_vitals]
  show ?thesis by blast
qed

text \<open>
  C8. Claim: every patient with lactate 5.2 who is not on a ventilator is predicted not
  ready, with a reasoning that mentions lactate and with "Elevated lactate" among the risk
  factors. The decision list is ordered: for the same patient on vasopressors the first
  rule answers, and its reasoning does not mention lactate.
\<close>

theorem lactate_patient_on_pressors_reasoning:
  "lactate (vitals lactate_pressor_patient) = 5.2 \<and>
   \<not> onVentilator lactate_pressor_patient \<and>
   fallbackPrediction (now_iso noon) lactate_pressor_patient =
     Inr \<lparr>transferReady = False, confidence = 0.95,
          reasoning = ''Patient requires intensive care support (ventilator/pressors)'',
          riskFactors = [''Vasopressor support'', ''Elevated lactate''],
          timestamp = Some (now_iso noon)\<rparr> \<and>
   \<not> sublist ''lactate'' ''Patient requires intensive care support (ventilator/pressors)''"
proof -
  have factors: "identifyRiskFactors lactate_pressor_patient =
      [''Vasopressor support'', ''Elevated lactate'']"
    by (simp add: identifyRiskFactors_def push_if_def Let_def lactate_pressor_patient_def
        lactate_patient_def stable_patient_def stable_vitals_def num_and_gt_def
        lab_creatinine_def comorbidities_gt2_def)
  have pressors: "onVentilator lactate_pressor_patient \<or> onPressors lactate_pressor_patient"
    by (simp add: lactate_pressor_patient_def)
  have reading: "lactate (vitals lactate_pressor_patient) = 5.2"
    "\<not> onVentilator lactate_pressor_patient"
    by (simp_all add: lactate_pressor_patient_def lactate_patient_def stable_patient_def)
  have silent:
    "\<not> sublist ''lactate'' ''Patient requires intensive care support (ventilator/pressors)''"
    by (simp add: sublist_Cons_right)
  show ?thesis
    using factors reading silent
    by (simp add: fallbackPrediction_Inr decide_life_support [OF pressors])
qed

text \<open>
  C8 as amended: every patient with lactate 5.2 who is not on a ventilator is predicted not
  ready and has "Elevated lactate" among the risk factors; the reasoning mentions lactate
  when in addition the patient is not on pressors and the SOFA score is below 6.
\<close>

theorem fallbackPrediction_lactate_5_2:
  assumes "lactate (vitals p) = 5.2" and "\<not> onVentilator p"
  shows "\<exists>r. fallbackPrediction now p = Inr r \<and> \<not> transferReady r \<and>
           ''Elevated lactate'' \<in> set (riskFactors r) \<and>
           (\<not> onPressors p \<and> calculateSOFAScore p < 6 \<longrightarrow>
              sublist ''lactate'' (reasoning r))"
proof -
  have high: "lactate (vitals p) > 4" and raised: "lactate (vitals p) > 2"
    using assms(1) by simp_all
  have mentions: "sublist ''lactate'' ''Elevated lactate suggests ongoing tissue hypoperfusion''"
    by (simp add: sublist_Cons_right)
  show ?thesis
    using decide_lactate_not_ready [OF high] elevated_lactate_factor [OF raised]
      decide_lactate_branch [OF assms(2) _ _ high] mentions
    by (simp add: fallbackPrediction_Inr)
qed

theorem fallbackPrediction_lactate_5_2_witness:
  "lactate (vitals lactate_patient) = 5.2 \<and> \<not> onVentilator lactate_patient \<and>
   \<not> onPressors lactate_patient \<and> calculateSOFAScore lactate_patient < 6 \<and>
   (\<exists>r. fallbackPrediction (now_iso noon) lactate_patient = Inr r \<and> \<not> transferReady r \<and>
        ''Elevated lactate'' \<in> set (riskFactors r) \<and> sublist ''lactate'' (reasoning r))"
proof -
  have reading: "lactate (vitals lactate_patient) = 5.2" "\<not> onVentilator lactate_patient"
    "\<not> onPressors lactate_patient"
    by (simp_all add: lactate_patient_def stable_patient_def)
  have sofa: "calculateSOFAScore lactate_patient < 6"
    by (simp add: calculateSOFAScore_def Let_def lactate_patient_def stable_patient_def
        stable_vitals_def num_or_def num_and_ge_def lab_bilirubin_def lab_creatinine_def)
  from fallbackPrediction_lactate_5_2 [OF reading(1,2), of "now_iso noon"] reading sofa
  show ?thesis by auto
qed

text \<open>
  C9. In \<^verbatim>\<open>assessVitalStability\<close> the branches that would subtract 0.4 for the heart rate
  and 0.5 for the SpO2 are never taken: their guards imply the guards tested before them.
  The heart-rate assessment subtracts 0.2 or nothing, the SpO2 assessment 0.3 or nothing,
  and no assessment subtracts more than 0.3.
\<close>

theorem severe_penalty_branches_unreachable:
  "((hr < 50 \<or> hr > 140) \<longrightarrow> (hr < 60 \<or> hr > 120)) \<and>
   (s < 92 \<longrightarrow> s < 95) \<and>
   heartRatePenalty hr = (if hr < 60 \<or> hr > 120 then 0.2 else 0) \<and>
   spO2Penalty s = (if s < 95 then 0.3 else 0) \<and>
   heartRatePenalty hr \<noteq> 0.4 \<and> spO2Penalty s \<noteq> 0.5 \<and>
   heartRatePenalty hr \<le> 0.3 \<and> spO2Penalty s \<le> 0.3 \<and>
   bloodPressurePenalty sys dia \<le> 0.3 \<and> temperaturePenalty t \<le> 0.3 \<and>
   respiratoryRatePenalty rr \<le> 0.3"
proof -
  have "bloodPressurePenalty sys dia \<le> 0.3"
    by (simp add: bloodPressurePenalty_def Let_def)
  moreover have "temperaturePenalty t \<le> 0.3"
    by (simp add: temperaturePenalty_def split: option.split)
  moreover have "respiratoryRatePenalty rr \<le> 0.3"
    by (simp add: respiratoryRatePenalty_def)
  ultimately show ?thesis
    by (simp add: heartRatePenalty_eq spO2Penalty_eq)
qed

text \<open>A heart rate of 45 and an SpO2 of 90 satisfy the guards of the severe branches and
  are charged 0.2 and 0.3.\<close>

theorem severe_penalty_branches_unreachable_witness:
  "((45::real) < 50 \<or> (45::real) > 140) \<and> (90::real) < 92 \<and>
   heartRatePenalty 45 = 0.2 \<and> spO2Penalty 90 = 0.3"
  using severe_penalty_branches_unreachable [of 45 90] by simp

text \<open>
  C10. Every result of \<^verbatim>\<open>fallbackPrediction\<close> has a confidence in [0.5, 0.95]: a result
  that is not ready has one of 0.8, 0.85, 0.88, 0.9, 0.95; a ready result is reached only
  with stability at least 0.7 and has \<open>min 0.95 (0.7 + stability * 0.25)\<close>, which is at
  least 0.875; the answer of the \<^verbatim>\<open>catch\<close> block has 0.5.
\<close>

theorem fallbackPrediction_confidence_range:
  "(\<exists>r. fallbackPrediction now p = Inr r \<and>
        0.5 \<le> confidence r \<and> confidence r \<le> 0.95 \<and>
        (transferReady r \<longrightarrow>
           0.7 \<le> assessVitalStability (vitals p) \<and>
           confidence r = min 0.95 (0.7 + assessVitalStability (vitals p) * 0.25) \<and>
           0.875 \<le> confidence r) \<and>
        (\<not> transferReady r \<longrightarrow> confidence r \<in> {0.8, 0.85, 0.88, 0.9, 0.95})) \<and>
   confidence (assessment_unavailable now) = 0.5 \<and>
   \<not> transferReady (assessment_unavailable now)"
proof -
  let ?d = "decide p (calculateSOFAScore p) (assessVitalStability (vitals p))"
  let ?c = "fst (snd ?d)"
  from decide_cases [of p "calculateSOFAScore p" "assessVitalStability (vitals p)"]
  consider
    (not_ready) "\<not> fst ?d" "?c \<in> {0.8, 0.85, 0.88, 0.9, 0.95}"
  | (ready) "fst ?d" "0.7 \<le> assessVitalStability (vitals p)"
      "?c = min 0.95 (0.7 + assessVitalStability (vitals p) * 0.25)"
    by blast
  then have "0.5 \<le> ?c \<and> ?c \<le> 0.95 \<and>
      (fst ?d \<longrightarrow> 0.7 \<le> assessVitalStability (vitals p) \<and>
         ?c = min 0.95 (0.7 + assessVitalStability (vitals p) * 0.25) \<and> 0.875 \<le> ?c) \<and>
      (\<not> fst ?d \<longrightarrow> ?c \<in> {0.8, 0.85, 0.88, 0.9, 0.95})"
  proof cases
    case not_ready
    then show ?thesis by auto
  next
    case ready
    then show ?thesis by (simp add: min_def)
  qed
  then show ?thesis
    unfolding fallbackPrediction_Inr assessment_unavailable_def by fastforce
qed

theorem fallbackPrediction_confidence_range_witness:
  "\<exists>r. fallbackPrediction (now_iso noon) stable_patient = Inr r \<and> transferReady r \<and>
       confidence r = 0.95 \<and> 0.875 \<le> confidence r \<and>
       assessVitalStability (vitals stable_patient) = 1"
proof -
  have stab: "assessVitalStability (vitals stable_patient) = 1"
    by (simp add: assessVitalStability_eq heartRatePenalty_eq spO2Penalty_eq
        bloodPressurePenalty_def temperaturePenalty_def respiratoryRatePenalty_def num_or_def
        stable_patient_def stable_vitals_def)
  have sofa: "calculateSOFAScore stable_patient = 0"
    by (simp add: calculateSOFAScore_def Let_def stable_patient_def
        stable_vitals_def num_or_def num_and_ge_def lab_bilirubin_def lab_creatinine_def)
  have ready: "fst (decide stable_patient 0 1)"
    by (simp add: decide_def stable_patient_def stable_vitals_def)
  from fallbackPrediction_confidence_range [of "now_iso noon" stable_patient] stab
  obtain r where r: "fallbackPrediction (now_iso noon) stable_patient = Inr r"
    "transferReady r \<longrightarrow> confidence r = min 0.95 (0.7 + 1 * 0.25) \<and> 0.875 \<le> confidence r"
    by auto
  from r(1) ready stab sofa have "transferReady r"
    by (auto simp: fallbackPrediction_Inr)
  with r stab show ?thesis by auto
qed

section \<open>Properties of the Event Bus\<close>

lemma subscribers_addListener:
  "subscribers (addListener event cb ls) event' =
     (if event' = event then subscribers ls event @ [cb] else subscribers ls event')"
  by (simp add: subscribers_def addListener_def Let_def split: option.splits)

lemma subscribers_removeListener:
  "subscribers (removeListener event cb ls) event
     = splice_first (cb_id cb) (subscribers ls event)"
  by (simp add: subscribers_def removeListener_def split: option.splits)

lemma forEach_try_invoked:
  "invoked (forEach_try cbs data acc) = invoked acc @ map cb_id cbs"
  by (induction cbs arbitrary: acc) (simp_all add: Let_def)

lemma forEach_try_thrown: "thrown (forEach_try cbs data acc) = thrown acc"
  by (induction cbs arbitrary: acc) (simp_all add: Let_def)

lemma forEach_try_world:
  "world (forEach_try cbs data acc) = foldl (\<lambda>w cb. world (cb_run cb data w)) (world acc) cbs"
  by (induction cbs arbitrary: acc) (simp_all add: Let_def)


text \<open>The current copy: a dispatch never throws, also with no subscriber, and calls every
  subscriber of the event in the order of registration, whether or not one of them threw;
  the state left is that of running them one after the other.\<close>

lemma notifyListeners_calls_all:
  "thrown (notifyListeners ls event data w) = None \<and>
   invoked (notifyListeners ls event data w) = map cb_id (subscribers ls event) \<and>
   world (notifyListeners ls event data w) =
     foldl (\<lambda>w cb. world (cb_run cb data w)) w (subscribers ls event)"
  by (simp add: notifyListeners_def subscribers_def Let_def forEach_try_invoked
      forEach_try_thrown forEach_try_world split: option.split)

lemma notifyListeners_no_subscriber:
  "subscribers ls event = [] \<Longrightarrow>
   notifyListeners ls event data w = \<lparr>world = w, requests = [], thrown = None, invoked = []\<rparr>"
  by (auto simp: notifyListeners_def subscribers_def Let_def split: option.splits)

lemma notifyListeners_legacy_no_subscriber:
  "subscribers ls event = [] \<Longrightarrow>
   notifyListeners_legacy ls event data w =
     \<lparr>world = w, requests = [], thrown = None, invoked = []\<rparr>"
  by (auto simp: notifyListeners_legacy_def subscribers_def Let_def split: option.splits)

lemma forEach_legacy_no_throw:
  "\<forall>cb \<in> set cbs. \<forall>w. thrown (cb_run cb data w) = None \<Longrightarrow>
   forEach_legacy cbs data acc = forEach_try cbs data acc"
  by (induction cbs arbitrary: acc) (simp_all add: Let_def)

text \<open>
  C4. Claim: a dispatch with no subscriber does not throw; a dispatch calls all
  subscribers in registration order, and a subscriber that throws does not keep the others
  from being called. The current copy does so (\<open>notifyListeners_calls_all\<close>). The earlier
  copy calls the subscribers without a \<^verbatim>\<open>try\<close>: with a throwing subscriber registered
  first and two more after it, only the first is called and its exception leaves
  \<^verbatim>\<open>notifyListeners\<close>.
\<close>

theorem notifyListeners_legacy_stops_at_throwing_subscriber:
  "map cb_id (subscribers three_subscribers ''ping'') = [1, 2, 3] \<and>
   notifyListeners_legacy three_subscribers ''ping'' () [] =
     \<lparr>world = [], requests = [], thrown = Some (Error ''subscriber failed''), invoked = [1]\<rparr> \<and>
   notifyListeners three_subscribers ''ping'' () [] =
     \<lparr>world = [2, 3], requests = [], thrown = None, invoked = [1, 2, 3]\<rparr>"
proof -
  have subs: "three_subscribers ''ping'' =
      Some [throwing_subscriber, marking_subscriber 2, marking_subscriber 3]"
    by (simp add: three_subscribers_def addListener_def Let_def)
  show ?thesis
    by (simp add: subscribers_def notifyListeners_legacy_def notifyListeners_def subs Let_def
        throwing_subscriber_def marking_subscriber_def)
qed

section \<open>Properties of the Transport Client\<close>

lemma connectWebSocket_open: "ws_is_open s \<Longrightarrow> connectWebSocket t s = s"
  by (simp add: connectWebSocket_def)

lemma connectWebSocket_reconnecting: "isReconnecting s \<Longrightarrow> connectWebSocket t s = s"
  by (simp add: connectWebSocket_def)

lemma connectWebSocket_throws:
  "\<not> ws_is_open s \<Longrightarrow> \<not> isReconnecting s \<Longrightarrow> connectWebSocket True s = s"
  by (simp add: connectWebSocket_def Let_def)

lemma connectWebSocket_creates:
  "\<not> ws_is_open s \<Longrightarrow> \<not> isReconnecting s \<Longrightarrow>
   connectWebSocket False s =
     s\<lparr>sockets := sockets s @ [CONNECTING], ws := Some (length (sockets s)),
       isReconnecting := True\<rparr>"
  by (simp add: connectWebSocket_def Let_def)

lemma connectWebSocket_then_reconnecting:
  "\<not> ws_is_open s \<Longrightarrow> \<not> isReconnecting s \<Longrightarrow> isReconnecting (connectWebSocket False s)"
  by (simp add: connectWebSocket_creates)

lemma connectWebSocket_twice:
  "connectWebSocket t' (connectWebSocket False s) = connectWebSocket False s"
proof (cases "ws_is_open s \<or> isReconnecting s")
  case True
  then have "connectWebSocket False s = s"
    by (auto simp: connectWebSocket_open connectWebSocket_reconnecting)
  with True show ?thesis
    by (auto simp: connectWebSocket_open connectWebSocket_reconnecting)
next
  case False
  then have "isReconnecting (connectWebSocket False s)"
    by (simp add: connectWebSocket_then_reconnecting)
  then show ?thesis by (rule connectWebSocket_reconnecting)
qed

text \<open>The earlier copy returns at once only for an open socket; called while the first
  socket is still connecting it creates a second one.\<close>

lemma connectWebSocket_legacy_open: "ws_is_open s \<Longrightarrow> connectWebSocket_legacy t s = Inr s"
  by (simp add: connectWebSocket_legacy_def)

lemma connectWebSocket_legacy_while_connecting:
  "connectWebSocket_legacy False
     \<lparr>sockets = [CONNECTING], ws = Some 0, isReconnecting = False, timers = 0\<rparr> =
   Inr \<lparr>sockets = [CONNECTING, CONNECTING], ws = Some 1, isReconnecting = False,
        timers = 0\<rparr>"
  by (simp add: connectWebSocket_legacy_def ws_is_open_def)

text \<open>A call made while the timer is pending creates the one new socket; when the timer
  then fires, the flag is set and its call changes nothing further.\<close>

lemma timer_after_manual_connect:
  "timer_fired t (connectWebSocket False reconnect_scheduled) =
     \<lparr>sockets = [CLOSED, CONNECTING], ws = Some 1, isReconnecting = True, timers = 0\<rparr> \<and>
   live_sockets (timer_fired t (connectWebSocket False reconnect_scheduled)) = 1"
  by (simp add: reconnect_scheduled_def socket_closed_def socket_opened_def timer_fired_def
      connectWebSocket_def initial_transport_def ws_is_open_def live_sockets_def Let_def)

text \<open>
  C3. Claim: \<^verbatim>\<open>connectWebSocket\<close> is a no-op while a socket is open or while a reconnect
  is already scheduled. The reconnect is scheduled by \<^verbatim>\<open>onclose\<close>, which clears
  \<^verbatim>\<open>isReconnecting\<close> before it arms the timer: in the state after a connection was
  opened and closed, with the timer pending, a call creates a second socket.
\<close>

theorem connectWebSocket_while_reconnect_scheduled:
  "reconnect_scheduled =
     \<lparr>sockets = [CLOSED], ws = Some 0, isReconnecting = False, timers = 1\<rparr> \<and>
   connectWebSocket False reconnect_scheduled =
     \<lparr>sockets = [CLOSED, CONNECTING], ws = Some 1, isReconnecting = True, timers = 1\<rparr>"
  by (simp add: reconnect_scheduled_def socket_closed_def socket_opened_def
      connectWebSocket_def initial_transport_def ws_is_open_def Let_def)

text \<open>
  C3 as amended: \<^verbatim>\<open>connectWebSocket\<close> is a no-op while the current socket is open or
  while the flag \<^verbatim>\<open>isReconnecting\<close> is set, that is, while a connection attempt is under
  way; a second call right after a call changes nothing; and calls made while connected
  leave the number of open sockets as it was.
\<close>

theorem connectWebSocket_noop:
  "(ws_is_open s \<or> isReconnecting s \<longrightarrow> connectWebSocket t s = s) \<and>
   connectWebSocket t' (connectWebSocket False s) = connectWebSocket False s \<and>
   (ws_is_open s \<longrightarrow>
      connectWebSocket t' (connectWebSocket t s) = s \<and>
      open_sockets (connectWebSocket t' (connectWebSocket t s)) = open_sockets s)"
  by (auto simp: connectWebSocket_open connectWebSocket_reconnecting connectWebSocket_twice)

text \<open>The witness: two calls on the connected transport leave its one open socket, and a
  call while the first socket is still connecting changes nothing.\<close>

theorem connectWebSocket_noop_witness:
  "ws_is_open transport_connected \<and> open_sockets transport_connected = 1 \<and>
   connectWebSocket False (connectWebSocket False transport_connected)
     = transport_connected \<and>
   open_sockets (connectWebSocket False (connectWebSocket False transport_connected)) = 1 \<and>
   isReconnecting transport_connecting \<and>
   connectWebSocket False transport_connecting = transport_connecting"
proof -
  have state: "transport_connected =
      \<lparr>sockets = [OPEN], ws = Some 0, isReconnecting = False, timers = 0\<rparr>"
    by (simp add: transport_connected_def socket_opened_def connectWebSocket_def initial_transport_def
        ws_is_open_def Let_def)
  have op: "ws_is_open transport_connected" and one: "open_sockets transport_connected = 1"
    by (simp_all add: state ws_is_open_def open_sockets_def)
  have flag: "isReconnecting transport_connecting"
    by (simp add: transport_connecting_def connectWebSocket_def initial_transport_def ws_is_open_def
        Let_def)
  from connectWebSocket_noop [of transport_connected False False]
    connectWebSocket_noop [of transport_connecting False]
    op one flag
  show ?thesis by simp
qed

section \<open>Properties of the Sync Coordinator\<close>

lemma issued_simps [simp]:
  "issued None = []" "issued (Some r) = [awaited r]"
  by (simp_all add: issued_def)

lemma onmessage_Envelope:
  "onmessage svc (Envelope ty data) w =
     \<lparr>world = world (notifyListeners (listeners svc) ty data w),
      requests = requests (notifyListeners (listeners svc) ty data w)
        @ issued (if refreshes_patients ty then triggerPatientDataRefresh svc else None)
        @ issued (if refreshes_transfer_requests ty
                  then triggerTransferRequestRefresh svc else None),
      thrown = None,
      invoked = invoked (notifyListeners (listeners svc) ty data w),
      patient_refresh =
        (if refreshes_patients ty then triggerPatientDataRefresh svc else None),
      transfer_request_refresh =
        (if refreshes_transfer_requests ty then triggerTransferRequestRefresh svc else None)\<rparr>"
  using notifyListeners_calls_all [of "listeners svc" ty data w]
  by (simp add: onmessage_def Let_def)

lemma onmessage_Unparseable:
  "onmessage svc Unparseable w =
     \<lparr>world = w, requests = [], thrown = None, invoked = [],
      patient_refresh = None, transfer_request_refresh = None\<rparr>"
  by (simp add: onmessage_def)

lemma onmessage_legacy_requests:
  "requests (onmessage_legacy ls (Envelope ty data) w)
     = requests (notifyListeners_legacy ls ty data w)"
  by (simp add: onmessage_legacy_def)

lemma patient_refetches_single [simp]:
  "patient_refetches [] = 0" "patient_refetches [getAllPatients_request] = 1"
  "patient_refetches [getTransferRequests_request] = 0"
  by (simp_all add: patient_refetches_def getAllPatients_request_def
      getTransferRequests_request_def)

lemma transfer_request_refetches_single [simp]:
  "transfer_request_refetches [] = 0"
  "transfer_request_refetches [getTransferRequests_request] = 1"
  "transfer_request_refetches [getAllPatients_request] = 0"
  by (simp_all add: transfer_request_refetches_def getAllPatients_request_def
      getTransferRequests_request_def)

lemma refetches_append:
  "patient_refetches (xs @ ys) = patient_refetches xs + patient_refetches ys"
  "transfer_request_refetches (xs @ ys)
     = transfer_request_refetches xs + transfer_request_refetches ys"
  by (simp_all add: patient_refetches_def transfer_request_refetches_def)

text \<open>A refresh that settles: a 2xx answer hands its list to the callback of the refresh,
  any other answer and a rejected fetch leave the state as it is.\<close>

lemma refresh_settled_ok:
  "ok response \<Longrightarrow>
   refresh_settled pending (Inr response) w
     = (then_callback pending (payload response) w)\<lparr>thrown := None\<rparr>"
  by (simp add: refresh_settled_def fetched_list_def)

lemma refresh_settled_failed:
  "\<not> ok response \<Longrightarrow>
   refresh_settled pending (Inr response) w = \<lparr>world = w, requests = [], thrown = None\<rparr>"
  "refresh_settled pending (Inl e) w = \<lparr>world = w, requests = [], thrown = None\<rparr>"
  by (simp_all add: refresh_settled_def fetched_list_def)

lemma subscribers_empty: "subscribers Map.empty event = []"
  by (simp add: subscribers_def)

text \<open>The subscriber lists of the dashboard.\<close>

lemma dashboard_subscribers:
  "subscribers (listeners (dashboard_service clk)) ''vitals_update''
     = [\<lparr>cb_id = 1, cb_run = handleVitalsUpdate clk\<rparr>]"
  "subscribers (listeners (dashboard_service clk)) ''patient_discharged''
     = [\<lparr>cb_id = 4, cb_run = handlePatientDischarged clk\<rparr>]"
  "subscribers (listeners (dashboard_service clk)) ''patient_updated'' = []"
  by (simp_all add: dashboard_service_def Let_def subscribers_addListener
      setPatientDataCallback_def setTransferRequestCallback_def empty_service_def
      subscribers_empty)

lemma dashboard_callbacks:
  "patientDataCallback (dashboard_service clk) = Some (dashboard_patients_callback clk)"
  "transferRequestCallback (dashboard_service clk) = Some dashboard_requests_callback"
  by (simp_all add: dashboard_service_def Let_def setPatientDataCallback_def
      setTransferRequestCallback_def empty_service_def)

lemma notifyListeners_single:
  "subscribers ls event = [cb] \<Longrightarrow>
   notifyListeners ls event data w =
     \<lparr>world = world (cb_run cb data w), requests = requests (cb_run cb data w),
      thrown = None, invoked = [cb_id cb]\<rparr>"
  by (auto simp: notifyListeners_def subscribers_def Let_def split: option.splits)

text \<open>What the dashboard's subscriber makes of a vitals frame: in the record of the patient
  named by the frame the six readings of the frame replace the old ones, the other vitals
  and the other fields of the record stay, and the record is stamped; the records of the
  other patients stay as they are.\<close>

lemma dashboard_vitals_update_world:
  "world (onmessage (dashboard_service clk) (Envelope ''vitals_update'' (VitalsData d)) dw) =
     dw\<lparr>patients :=
          map (\<lambda>patient.
                 if patientId patient = vu_patient_id d
                 then patient
                   \<lparr>vitals := (vitals patient)
                      \<lparr>heartRate := vu_heartRate d, spO2 := vu_spO2 d,
                       respiratoryRate := vu_respiratoryRate d,
                       systolicBP := vu_systolicBP d, lactate := vu_lactate d,
                       gcs := vu_gcs d\<rparr>,
                    lastUpdated := Some (now_iso clk)\<rparr>
                 else patient)
            (patients dw),
        lastUpdate := now_iso clk\<rparr>"
proof -
  have "patch_vitals clk d =
      (\<lambda>patient.
         if patientId patient = vu_patient_id d
         then patient
           \<lparr>vitals := (vitals patient)
              \<lparr>heartRate := vu_heartRate d, spO2 := vu_spO2 d,
               respiratoryRate := vu_respiratoryRate d,
               systolicBP := vu_systolicBP d, lactate := vu_lactate d,
               gcs := vu_gcs d\<rparr>,
            lastUpdated := Some (now_iso clk)\<rparr>
         else patient)"
    by (rule ext) (simp add: patch_vitals_def)
  then show ?thesis
    by (simp add: onmessage_Envelope notifyListeners_single [OF dashboard_subscribers(1)]
        handleVitalsUpdate_def quiet_def)
qed

text \<open>On the dashboard a \<^verbatim>\<open>patient_discharged\<close> frame makes the subscriber request both
  lists and then the handler's two triggers request them again.\<close>

lemma dashboard_discharge_requests:
  "requests (onmessage (dashboard_service clk) (Envelope ''patient_discharged'' data) w) =
     [getAllPatients_request, getTransferRequests_request,
      getAllPatients_request, getTransferRequests_request]"
  by (simp add: onmessage_Envelope notifyListeners_single [OF dashboard_subscribers(2)]
      handlePatientDischarged_def refreshes_patients_def refreshes_transfer_requests_def
      triggerPatientDataRefresh_def triggerTransferRequestRefresh_def dashboard_callbacks)

text \<open>With the earlier service and dashboard a \<^verbatim>\<open>vitals_update\<close> frame is patched in
  place and nothing is requested.\<close>

lemma legacy_vitals_update_requests:
  "requests (onmessage_legacy (dashboard_listeners_legacy clk)
      (Envelope ''vitals_update'' data) w) = []"
proof -
  have "dashboard_listeners_legacy clk ''vitals_update''
      = Some [\<lparr>cb_id = 1, cb_run = handleVitalsUpdate clk\<rparr>]"
    by (simp add: dashboard_listeners_legacy_def addListener_def Let_def)
  then show ?thesis
    by (simp add: onmessage_legacy_def notifyListeners_legacy_def Let_def
        handleVitalsUpdate_def quiet_def split: payload.split)
qed

text \<open>
  C2. Claim: a \<^verbatim>\<open>vitals_update\<close> is handled only by patching the patient's vitals in
  place, with no refetch, and lists are refetched exactly for \<^verbatim>\<open>patient_updated\<close>,
  \<^verbatim>\<open>patient_discharged\<close>, \<^verbatim>\<open>transfer_request_created\<close> and
  \<^verbatim>\<open>transfer_request_updated\<close>. The handler's first condition names
  \<^verbatim>\<open>vitals_update\<close> too: on the dashboard a vitals frame patches the patient and
  requests the patient list.
\<close>

theorem vitals_update_refetches_patient_list:
  "requests (onmessage (dashboard_service noon) vitals_frame ward) = [getAllPatients_request] \<and>
   patient_refetches (requests (onmessage (dashboard_service noon) vitals_frame ward)) = 1 \<and>
   map (heartRate \<circ> vitals) (patients (world (onmessage (dashboard_service noon)
      vitals_frame ward))) = [130]"
  by (simp add: vitals_frame_def vitals_reading_def onmessage_Envelope
      notifyListeners_single [OF dashboard_subscribers(1)] handleVitalsUpdate_def quiet_def
      refreshes_patients_def refreshes_transfer_requests_def triggerPatientDataRefresh_def
      dashboard_callbacks ward_def patch_vitals_def stable_patient_def)

text \<open>
  C2 as amended: for every frame that parses, the handler first dispatches to the
  subscribers and then requests the patient list exactly when the type is
  \<^verbatim>\<open>vitals_update\<close>, \<^verbatim>\<open>patient_updated\<close> or \<^verbatim>\<open>patient_discharged\<close>, and the
  transfer-request list exactly when it is \<^verbatim>\<open>transfer_request_created\<close>,
  \<^verbatim>\<open>transfer_request_updated\<close> or \<^verbatim>\<open>patient_discharged\<close>, each once and each provided
  its callback slot is filled; a frame that does not parse requests nothing. The refresh
  that is then under way awaits that request and carries the callback registered in the
  slot: when the request succeeds, that callback is called with the fetched list, and when
  it fails, nothing is called. A \<^verbatim>\<open>vitals_update\<close> is, besides, patched in place by the
  dashboard's subscriber: in the record of the patient named by the frame the heart rate,
  SpO2, respiratory rate, systolic pressure, lactate and GCS of the frame replace the old
  readings, and nothing else of the patient list changes but that record's time stamp.
\<close>

theorem onmessage_refetches:
  "requests (onmessage svc (Envelope ty data) w) =
     requests (notifyListeners (listeners svc) ty data w)
       @ (if (ty = ''vitals_update'' \<or> ty = ''patient_updated'' \<or> ty = ''patient_discharged'')
             \<and> patientDataCallback svc \<noteq> None
          then [getAllPatients_request] else [])
       @ (if (ty = ''transfer_request_created'' \<or> ty = ''transfer_request_updated''
                \<or> ty = ''patient_discharged'')
             \<and> transferRequestCallback svc \<noteq> None
          then [getTransferRequests_request] else []) \<and>
   world (onmessage svc (Envelope ty data) w)
     = world (notifyListeners (listeners svc) ty data w) \<and>
   thrown (onmessage svc (Envelope ty data) w) = None \<and>
   onmessage svc Unparseable w =
     \<lparr>world = w, requests = [], thrown = None, invoked = [],
      patient_refresh = None, transfer_request_refresh = None\<rparr> \<and>
   map_option awaited (patient_refresh (onmessage svc (Envelope ty data) w)) =
     (if (ty = ''vitals_update'' \<or> ty = ''patient_updated'' \<or> ty = ''patient_discharged'')
         \<and> patientDataCallback svc \<noteq> None
      then Some getAllPatients_request else None) \<and>
   map_option awaited (transfer_request_refresh (onmessage svc (Envelope ty data) w)) =
     (if (ty = ''transfer_request_created'' \<or> ty = ''transfer_request_updated''
            \<or> ty = ''patient_discharged'')
         \<and> transferRequestCallback svc \<noteq> None
      then Some getTransferRequests_request else None) \<and>
   (patientDataCallback svc = Some pcb \<and>
    patient_refresh (onmessage svc (Envelope ty data) w) = Some patients_pending \<longrightarrow>
      (ok fetched_patients \<longrightarrow>
         refresh_settled patients_pending (Inr fetched_patients) w'
           = (pcb (payload fetched_patients) w')\<lparr>thrown := None\<rparr>) \<and>
      (\<not> ok failed_patients \<longrightarrow>
         refresh_settled patients_pending (Inr failed_patients) w'
           = \<lparr>world = w', requests = [], thrown = None\<rparr>) \<and>
      refresh_settled patients_pending (Inl e) w'
        = \<lparr>world = w', requests = [], thrown = None\<rparr>) \<and>
   (transferRequestCallback svc = Some tcb \<and>
    transfer_request_refresh (onmessage svc (Envelope ty data) w) = Some requests_pending \<longrightarrow>
      (ok fetched_requests \<longrightarrow>
         refresh_settled requests_pending (Inr fetched_requests) w'
           = (tcb (payload fetched_requests) w')\<lparr>thrown := None\<rparr>) \<and>
      (\<not> ok failed_requests \<longrightarrow>
         refresh_settled requests_pending (Inr failed_requests) w'
           = \<lparr>world = w', requests = [], thrown = None\<rparr>) \<and>
      refresh_settled requests_pending (Inl e) w'
        = \<lparr>world = w', requests = [], thrown = None\<rparr>) \<and>
   world (onmessage (dashboard_service clk) (Envelope ''vitals_update'' (VitalsData d)) dw) =
     dw\<lparr>patients :=
          map (\<lambda>patient.
                 if patientId patient = vu_patient_id d
                 then patient
                   \<lparr>vitals := (vitals patient)
                      \<lparr>heartRate := vu_heartRate d, spO2 := vu_spO2 d,
                       respiratoryRate := vu_respiratoryRate d,
                       systolicBP := vu_systolicBP d, lactate := vu_lactate d,
                       gcs := vu_gcs d\<rparr>,
                    lastUpdated := Some (now_iso clk)\<rparr>
                 else patient)
            (patients dw),
        lastUpdate := now_iso clk\<rparr>"
proof -
  let ?m = "onmessage svc (Envelope ty data) w"
  have p_slot: "patient_refresh ?m =
      (if refreshes_patients ty
       then map_option (\<lambda>cb. \<lparr>awaited = getAllPatients_request, then_callback = cb\<rparr>)
              (patientDataCallback svc)
       else None)"
    by (simp add: onmessage_Envelope triggerPatientDataRefresh_def split: option.split)
  have t_slot: "transfer_request_refresh ?m =
      (if refreshes_transfer_requests ty
       then map_option (\<lambda>cb. \<lparr>awaited = getTransferRequests_request, then_callback = cb\<rparr>)
              (transferRequestCallback svc)
       else None)"
    by (simp add: onmessage_Envelope triggerTransferRequestRefresh_def split: option.split)
  have req: "requests ?m = requests (notifyListeners (listeners svc) ty data w)
      @ issued (patient_refresh ?m) @ issued (transfer_request_refresh ?m)"
    by (simp add: onmessage_Envelope)
  have c1: "requests ?m =
     requests (notifyListeners (listeners svc) ty data w)
       @ (if (ty = ''vitals_update'' \<or> ty = ''patient_updated'' \<or> ty = ''patient_discharged'')
             \<and> patientDataCallback svc \<noteq> None
          then [getAllPatients_request] else [])
       @ (if (ty = ''transfer_request_created'' \<or> ty = ''transfer_request_updated''
                \<or> ty = ''patient_discharged'')
             \<and> transferRequestCallback svc \<noteq> None
          then [getTransferRequests_request] else [])"
    unfolding req p_slot t_slot
    by (cases "patientDataCallback svc"; cases "transferRequestCallback svc")
      (simp_all add: refreshes_patients_def refreshes_transfer_requests_def)
  have c2: "world ?m = world (notifyListeners (listeners svc) ty data w)"
    "thrown ?m = None"
    by (simp_all add: onmessage_Envelope)
  have c3: "map_option awaited (patient_refresh ?m) =
     (if (ty = ''vitals_update'' \<or> ty = ''patient_updated'' \<or> ty = ''patient_discharged'')
         \<and> patientDataCallback svc \<noteq> None
      then Some getAllPatients_request else None)"
    unfolding p_slot
    by (cases "patientDataCallback svc") (simp_all add: refreshes_patients_def)
  have c4: "map_option awaited (transfer_request_refresh ?m) =
     (if (ty = ''transfer_request_created'' \<or> ty = ''transfer_request_updated''
            \<or> ty = ''patient_discharged'')
         \<and> transferRequestCallback svc \<noteq> None
      then Some getTransferRequests_request else None)"
    unfolding t_slot
    by (cases "transferRequestCallback svc") (simp_all add: refreshes_transfer_requests_def)
  have c5: "patientDataCallback svc = Some pcb \<and> patient_refresh ?m = Some patients_pending \<longrightarrow>
      (ok fetched_patients \<longrightarrow>
         refresh_settled patients_pending (Inr fetched_patients) w'
           = (pcb (payload fetched_patients) w')\<lparr>thrown := None\<rparr>) \<and>
      (\<not> ok failed_patients \<longrightarrow>
         refresh_settled patients_pending (Inr failed_patients) w'
           = \<lparr>world = w', requests = [], thrown = None\<rparr>) \<and>
      refresh_settled patients_pending (Inl e) w'
        = \<lparr>world = w', requests = [], thrown = None\<rparr>"
  proof (intro impI, elim conjE)
    assume slot: "patientDataCallback svc = Some pcb"
      and pending: "patient_refresh ?m = Some patients_pending"
    from pending slot have "then_callback patients_pending = pcb"
      unfolding p_slot by (auto split: if_splits)
    then show "(ok fetched_patients \<longrightarrow>
         refresh_settled patients_pending (Inr fetched_patients) w'
           = (pcb (payload fetched_patients) w')\<lparr>thrown := None\<rparr>) \<and>
      (\<not> ok failed_patients \<longrightarrow>
         refresh_settled patients_pending (Inr failed_patients) w'
           = \<lparr>world = w', requests = [], thrown = None\<rparr>) \<and>
      refresh_settled patients_pending (Inl e) w'
        = \<lparr>world = w', requests = [], thrown = None\<rparr>"
      by (auto simp: refresh_settled_ok refresh_settled_failed)
  qed
  have c6: "transferRequestCallback svc = Some tcb \<and>
      transfer_request_refresh ?m = Some requests_pending \<longrightarrow>
      (ok fetched_requests \<longrightarrow>
         refresh_settled requests_pending (Inr fetched_requests) w'
           = (tcb (payload fetched_requests) w')\<lparr>thrown := None\<rparr>) \<and>
      (\<not> ok failed_requests \<longrightarrow>
         refresh_settled requests_pending (Inr failed_requests) w'
           = \<lparr>world = w', requests = [], thrown = None\<rparr>) \<and>
      refresh_settled requests_pending (Inl e) w'
        = \<lparr>world = w', requests = [], thrown = None\<rparr>"
  proof (intro impI, elim conjE)
    assume slot: "transferRequestCallback svc = Some tcb"
      and pending: "transfer_request_refresh ?m = Some requests_pending"
    from pending slot have "then_callback requests_pending = tcb"
      unfolding t_slot by (auto split: if_splits)
    then show "(ok fetched_requests \<longrightarrow>
         refresh_settled requests_pending (Inr fetched_requests) w'
           = (tcb (payload fetched_requests) w')\<lparr>thrown := None\<rparr>) \<and>
      (\<not> ok failed_requests \<longrightarrow>
         refresh_settled requests_pending (Inr failed_requests) w'
           = \<lparr>world = w', requests = [], thrown = None\<rparr>) \<and>
      refresh_settled requests_pending (Inl e) w'
        = \<lparr>world = w', requests = [], thrown = None\<rparr>"
      by (auto simp: refresh_settled_ok refresh_settled_failed)
  qed
  show ?thesis
    using c1 c2 c3 c4 c5 c6 onmessage_Unparseable [of svc w]
      dashboard_vitals_update_world [of clk d dw]
    by (intro conjI) assumption+
qed

text \<open>The witness: the discharge frame on the dashboard leaves both refreshes under way,
  each with the callback of its slot; settled with a list the callback stores it, settled
  with a 503 nothing changes; and the vitals frame patches the one patient.\<close>

theorem onmessage_refetches_witness:
  "patientDataCallback (dashboard_service noon) = Some (dashboard_patients_callback noon) \<and>
   transferRequestCallback (dashboard_service noon) = Some dashboard_requests_callback \<and>
   patient_refresh (onmessage (dashboard_service noon) discharge_frame ward) =
     Some \<lparr>awaited = getAllPatients_request,
           then_callback = dashboard_patients_callback noon\<rparr> \<and>
   transfer_request_refresh (onmessage (dashboard_service noon) discharge_frame ward) =
     Some \<lparr>awaited = getTransferRequests_request,
           then_callback = dashboard_requests_callback\<rparr> \<and>
   ok fresh_patients \<and> \<not> ok unavailable_patients \<and>
   ok fresh_requests \<and> \<not> ok unavailable_requests \<and>
   requests (onmessage (dashboard_service noon) discharge_frame ward) =
     requests (notifyListeners (listeners (dashboard_service noon)) ''patient_discharged''
       (DischargeData (Some ''42'')) ward)
       @ [getAllPatients_request] @ [getTransferRequests_request] \<and>
   refresh_settled
       \<lparr>awaited = getAllPatients_request, then_callback = dashboard_patients_callback noon\<rparr>
       (Inr fresh_patients) ward =
     \<lparr>world = ward\<lparr>patients := [lactate_patient], lastUpdate := now_iso noon\<rparr>,
      requests = [], thrown = None\<rparr> \<and>
   refresh_settled
       \<lparr>awaited = getAllPatients_request, then_callback = dashboard_patients_callback noon\<rparr>
       (Inr unavailable_patients) ward =
     \<lparr>world = ward, requests = [], thrown = None\<rparr> \<and>
   refresh_settled
       \<lparr>awaited = getTransferRequests_request, then_callback = dashboard_requests_callback\<rparr>
       (Inr fresh_requests) ward =
     \<lparr>world = ward\<lparr>transferRequests := [open_request]\<rparr>, requests = [], thrown = None\<rparr> \<and>
   refresh_settled
       \<lparr>awaited = getTransferRequests_request, then_callback = dashboard_requests_callback\<rparr>
       (Inr unavailable_requests) ward =
     \<lparr>world = ward, requests = [], thrown = None\<rparr> \<and>
   patients (world (onmessage (dashboard_service noon) vitals_frame ward)) =
     [stable_patient
        \<lparr>vitals :=
           \<lparr>heartRate = 130, spO2 = 97, temperature = Some 98.6, systolicBP = 118,
            diastolicBP = Some 80, respiratoryRate = 18, gcs = 15, lactate = 1.4,
            meanBP = None, centralVenousPressure = None\<rparr>,
         lastUpdated := Some (now_iso noon)\<rparr>]"
proof -
  let ?p = "\<lparr>awaited = getAllPatients_request,
      then_callback = dashboard_patients_callback noon\<rparr>"
  let ?t = "\<lparr>awaited = getTransferRequests_request,
      then_callback = dashboard_requests_callback\<rparr>"
  have frame: "discharge_frame = Envelope ''patient_discharged'' (DischargeData (Some ''42''))"
    by (simp add: discharge_frame_def)
  have slots:
    "patientDataCallback (dashboard_service noon) = Some (dashboard_patients_callback noon)"
    "transferRequestCallback (dashboard_service noon) = Some dashboard_requests_callback"
    by (rule dashboard_callbacks)+
  have under_way:
    "patient_refresh (onmessage (dashboard_service noon)
        (Envelope ''patient_discharged'' (DischargeData (Some ''42''))) ward) = Some ?p"
    "transfer_request_refresh (onmessage (dashboard_service noon)
        (Envelope ''patient_discharged'' (DischargeData (Some ''42''))) ward) = Some ?t"
    by (simp_all add: onmessage_Envelope refreshes_patients_def
        refreshes_transfer_requests_def triggerPatientDataRefresh_def
        triggerTransferRequestRefresh_def slots)
  have answers: "ok fresh_patients" "\<not> ok unavailable_patients"
    "ok fresh_requests" "\<not> ok unavailable_requests"
    by (simp_all add: fresh_patients_def unavailable_patients_def fresh_requests_def
        unavailable_requests_def)
  note inst = onmessage_refetches
    [where svc = "dashboard_service noon" and ty = "''patient_discharged''"
       and data = "DischargeData (Some ''42'')" and w = ward
       and pcb = "dashboard_patients_callback noon" and patients_pending = "?p"
       and tcb = dashboard_requests_callback and requests_pending = "?t"
       and fetched_patients = fresh_patients and failed_patients = unavailable_patients
       and fetched_requests = fresh_requests and failed_requests = unavailable_requests
       and w' = ward and clk = noon and d = vitals_reading and dw = ward]
  from inst slots have req:
    "requests (onmessage (dashboard_service noon)
        (Envelope ''patient_discharged'' (DischargeData (Some ''42''))) ward) =
     requests (notifyListeners (listeners (dashboard_service noon)) ''patient_discharged''
       (DischargeData (Some ''42'')) ward)
       @ [getAllPatients_request] @ [getTransferRequests_request]"
    by simp
  from inst slots under_way answers have settled:
    "refresh_settled ?p (Inr fresh_patients) ward
       = (dashboard_patients_callback noon (payload fresh_patients) ward)\<lparr>thrown := None\<rparr>"
    "refresh_settled ?p (Inr unavailable_patients) ward
       = \<lparr>world = ward, requests = [], thrown = None\<rparr>"
    "refresh_settled ?t (Inr fresh_requests) ward
       = (dashboard_requests_callback (payload fresh_requests) ward)\<lparr>thrown := None\<rparr>"
    "refresh_settled ?t (Inr unavailable_requests) ward
       = \<lparr>world = ward, requests = [], thrown = None\<rparr>"
    by blast+
  have stored:
    "(dashboard_patients_callback noon (payload fresh_patients) ward)\<lparr>thrown := None\<rparr>
       = \<lparr>world = ward\<lparr>patients := [lactate_patient], lastUpdate := now_iso noon\<rparr>,
          requests = [], thrown = None\<rparr>"
    "(dashboard_requests_callback (payload fresh_requests) ward)\<lparr>thrown := None\<rparr>
       = \<lparr>world = ward\<lparr>transferRequests := [open_request]\<rparr>, requests = [],
          thrown = None\<rparr>"
    by (simp_all add: dashboard_patients_callback_def dashboard_requests_callback_def
        quiet_def fresh_patients_def fresh_requests_def)
  from inst have "world (onmessage (dashboard_service noon)
        (Envelope ''vitals_update'' (VitalsData vitals_reading)) ward) =
     ward\<lparr>patients :=
          map (\<lambda>patient.
                 if patientId patient = vu_patient_id vitals_reading
                 then patient
                   \<lparr>vitals := (vitals patient)
                      \<lparr>heartRate := vu_heartRate vitals_reading,
                       spO2 := vu_spO2 vitals_reading,
                       respiratoryRate := vu_respiratoryRate vitals_reading,
                       systolicBP := vu_systolicBP vitals_reading,
                       lactate := vu_lactate vitals_reading,
                       gcs := vu_gcs vitals_reading\<rparr>,
                    lastUpdated := Some (now_iso noon)\<rparr>
                 else patient)
            (patients ward),
        lastUpdate := now_iso noon\<rparr>"
    by blast
  then have patched: "patients (world (onmessage (dashboard_service noon) vitals_frame ward)) =
     [stable_patient
        \<lparr>vitals :=
           \<lparr>heartRate = 130, spO2 = 97, temperature = Some 98.6, systolicBP = 118,
            diastolicBP = Some 80, respiratoryRate = 18, gcs = 15, lactate = 1.4,
            meanBP = None, centralVenousPressure = None\<rparr>,
         lastUpdated := Some (now_iso noon)\<rparr>]"
    by (simp add: vitals_frame_def vitals_reading_def ward_def stable_patient_def
        stable_vitals_def)
  show ?thesis
    using slots under_way answers req settled stored patched
    by (simp add: frame)
qed

text \<open>The notification of an updated request prints the request's id and status.\<close>

lemma transfer_request_updated_message:
  "map n_message (notifications (world (handleTransferRequestUpdated noon
      (RequestData open_request) ward))) = [''Transfer request 42 status: pending'']"
  by (simp add: handleTransferRequestUpdated_def quiet_def open_request_def ward_def)

section \<open>Properties of the Domain Client\<close>

lemma map_of_update_same: "map_of (AList.update k v al) k = Some v"
  by (simp add: update_conv')

text \<open>
  C5. Claim: every mutating call on a transfer request (update, doctor approve, doctor
  reject, admin approve, discharge) stamps \<^verbatim>\<open>updated_at\<close> into the request body. The
  body of the doctor's approval has the three properties \<^verbatim>\<open>doctor_id\<close>,
  \<^verbatim>\<open>target_department\<close> and \<^verbatim>\<open>notes\<close>, and no \<^verbatim>\<open>updated_at\<close>.
\<close>

theorem approve_body_without_updated_at:
  "body_keys (approveTransferRequest_request ''42'' ''dr-lee'' ''General Ward'' None)
     = [''doctor_id'', ''target_department'', ''notes''] \<and>
   body_field (approveTransferRequest_request ''42'' ''dr-lee'' ''General Ward'' None)
     ''updated_at'' = None"
  by (simp add: body_keys_def body_field_def approveTransferRequest_request_def)

text \<open>
  C5 as amended: \<^verbatim>\<open>updateTransferRequest\<close> stamps \<^verbatim>\<open>updated_at\<close> with the current time
  into the body it sends, overriding a value the caller passed, whatever becomes of the
  request; the bodies of the doctor's approval and rejection, of the admin's approval and of
  the discharge carry the actor, the target department where there is one, and the notes,
  and no \<^verbatim>\<open>updated_at\<close>.
\<close>

theorem updated_at_stamped_by_update_only:
  "fst (updateTransferRequest fetch now requestId updateData)
     = updateTransferRequest_request now requestId updateData \<and>
   body_field (updateTransferRequest_request now requestId updateData) ''updated_at''
     = Some (JStr now) \<and>
   body_keys (approveTransferRequest_request requestId actor department notes_opt)
     = [''doctor_id'', ''target_department'', ''notes''] \<and>
   body_keys (rejectTransferRequest_request requestId actor notes_opt)
     = [''doctor_id'', ''notes''] \<and>
   body_keys (adminApproveTransferRequest_request requestId actor department notes_opt)
     = [''admin_id'', ''target_department'', ''notes''] \<and>
   body_keys (dischargePatient_request requestId actor notes_opt) = [''nurse_id'', ''notes''] \<and>
   fst (approveTransferRequest fetch requestId actor department notes_opt)
     = approveTransferRequest_request requestId actor department notes_opt \<and>
   fst (rejectTransferRequest fetch requestId actor notes_opt)
     = rejectTransferRequest_request requestId actor notes_opt \<and>
   fst (adminApproveTransferRequest fetch requestId actor department notes_opt)
     = adminApproveTransferRequest_request requestId actor department notes_opt \<and>
   fst (dischargePatient fetch' requestId actor notes_opt)
     = dischargePatient_request requestId actor notes_opt"
  by (simp add: updateTransferRequest_def approveTransferRequest_def rejectTransferRequest_def
      adminApproveTransferRequest_def dischargePatient_def send_expect_data_def Let_def
      body_field_def body_keys_def updateTransferRequest_request_def
      approveTransferRequest_request_def rejectTransferRequest_request_def
      adminApproveTransferRequest_request_def dischargePatient_request_def map_of_update_same)

text \<open>The earlier copy of \<^verbatim>\<open>updateTransferRequest\<close> does not stamp: the body is the
  caller's data.\<close>

lemma updateTransferRequest_legacy_body:
  "body (updateTransferRequest_request_legacy requestId updateData) = Some (JObj updateData)"
  by (simp add: updateTransferRequest_request_legacy_def)

end
